theory Spec2Isabelle
  imports Complex_Main
begin

section \<open>JavaScript values\<close>

subsection \<open>Strings\<close>

text \<open>
  A string is the sequence of its Unicode code points. The literals of the source are
  ASCII; \<open>js\<close> turns such a literal into a string.
\<close>

type_synonym jsstring = "nat list"

definition js :: "string \<Rightarrow> jsstring" where
  "js s = map of_char s"

definition quote :: jsstring where
  "quote = [0x27]"

definition dquote :: jsstring where
  "dquote = [0x22]"

text \<open>The sign \<^verbatim>\<open>>=\<close> written as one character (U+2265) in two messages.\<close>

definition ge_sign :: jsstring where
  "ge_sign = [0x2265]"

text \<open>
  \<^verbatim>\<open>String.prototype.toUpperCase\<close> replaces every code point by its upper-case mapping
  (the default case conversion of Unicode; a mapping may be several code points long, as
  for U+00DF). The mapping is the table of the Unicode character database, which is not
  part of the sources: it is an argument \<open>um\<close> of every function that converts case.
\<close>

type_synonym case_mapping = "nat \<Rightarrow> jsstring"

definition toUpperCase :: "case_mapping \<Rightarrow> jsstring \<Rightarrow> jsstring" where
  "toUpperCase um s = concat (map um s)"

text \<open>
  What the table says on ASCII: the letters a..z go to A..Z, every other ASCII character
  is kept. \<open>ascii_upper\<close> is the mapping that does this and keeps every other code point;
  \<open>maps_ascii um\<close> says that \<open>um\<close> agrees with the table on ASCII.
\<close>

definition ascii_upper :: case_mapping where
  "ascii_upper c = [if 97 \<le> c \<and> c \<le> 122 then c - 32 else c]"

definition maps_ascii :: "case_mapping \<Rightarrow> bool" where
  "maps_ascii um = (\<forall>c. c < 128 \<longrightarrow> um c = ascii_upper c)"

text \<open>
  \<^verbatim>\<open>String.prototype.trim\<close> removes white space and line terminators at both ends: the
  code points TAB, LF, VT, FF, CR, space, U+00A0, U+1680, U+2000 to U+200A, U+2028,
  U+2029, U+202F, U+205F, U+3000 and U+FEFF.
\<close>

definition is_space :: "nat \<Rightarrow> bool" where
  "is_space c =
     (c \<in> set [0x09, 0x0A, 0x0B, 0x0C, 0x0D, 0x20, 0xA0, 0x1680,
                0x2000, 0x2001, 0x2002, 0x2003, 0x2004, 0x2005, 0x2006, 0x2007, 0x2008,
                0x2009, 0x200A, 0x2028, 0x2029, 0x202F, 0x205F, 0x3000, 0xFEFF])"

definition trim :: "jsstring \<Rightarrow> jsstring" where
  "trim s = rev (dropWhile is_space (rev (dropWhile is_space s)))"

text \<open>\<^verbatim>\<open>xs.includes(x)\<close> on an array of strings.\<close>

definition includes_str :: "jsstring list \<Rightarrow> jsstring \<Rightarrow> bool" where
  "includes_str xs x = (x \<in> set xs)"

text \<open>\<^verbatim>\<open>xs.join(sep)\<close>.\<close>

fun join :: "jsstring list \<Rightarrow> jsstring \<Rightarrow> jsstring" where
  "join [] sep = []"
| "join [x] sep = x"
| "join (x # y # ys) sep = x @ sep @ join (y # ys) sep"

text \<open>The decimal digits of an array index, as a template literal prints it.\<close>

function string_of_nat :: "nat \<Rightarrow> jsstring" where
  "string_of_nat n =
     (if n < 10 then [48 + n] else string_of_nat (n div 10) @ [48 + n mod 10])"
  by pat_completeness auto
termination
  by (relation "measure id") auto

subsection \<open>Values\<close>

text \<open>
  The validators of the repository test their arguments with \<^verbatim>\<open>typeof\<close>, so the
  leaves of every input are kept dynamically typed. A number is an IEEE double; the code
  modelled here only compares numbers, so a finite double is taken as the real it denotes
  and the three special values are kept apart. \<open>Object\<close> stands for any non-primitive
  value (an object, an array, a function).
\<close>

datatype jsnum = Fin real | NaN | PosInf | NegInf

datatype jsval = Undefined | Null | Bool bool | Num jsnum | Str jsstring | Object

text \<open>The result of \<^verbatim>\<open>typeof v\<close>, only as far as the code distinguishes it.\<close>

datatype jstype = T_undefined | T_object | T_boolean | T_number | T_string

fun typeof :: "jsval \<Rightarrow> jstype" where
  "typeof Undefined = T_undefined"
| "typeof Null = T_object"
| "typeof (Bool b) = T_boolean"
| "typeof (Num n) = T_number"
| "typeof (Str s) = T_string"
| "typeof Object = T_object"

text \<open>\<^verbatim>\<open>x < 0\<close>, \<^verbatim>\<open>x >= 0\<close> and \<^verbatim>\<open>x <= 1\<close> on numbers: every comparison with NaN is false.\<close>

fun num_lt_zero :: "jsnum \<Rightarrow> bool" where
  "num_lt_zero (Fin r) = (r < 0)"
| "num_lt_zero NaN = False"
| "num_lt_zero PosInf = False"
| "num_lt_zero NegInf = True"

fun num_ge_zero :: "jsnum \<Rightarrow> bool" where
  "num_ge_zero (Fin r) = (0 \<le> r)"
| "num_ge_zero NaN = False"
| "num_ge_zero PosInf = True"
| "num_ge_zero NegInf = False"

fun num_le_one :: "jsnum \<Rightarrow> bool" where
  "num_le_one (Fin r) = (r \<le> 1)"
| "num_le_one NaN = False"
| "num_le_one PosInf = False"
| "num_le_one NegInf = True"

fun isNaN :: "jsnum \<Rightarrow> bool" where
  "isNaN NaN = True"
| "isNaN _ = False"

text \<open>Truthiness, as \<^verbatim>\<open>!v\<close> and \<^verbatim>\<open>if (v)\<close> see it.\<close>

fun truthy :: "jsval \<Rightarrow> bool" where
  "truthy Undefined = False"
| "truthy Null = False"
| "truthy (Bool b) = b"
| "truthy (Num (Fin r)) = (r \<noteq> 0)"
| "truthy (Num NaN) = False"
| "truthy (Num _) = True"
| "truthy (Str s) = (s \<noteq> [])"
| "truthy Object = True"

subsection \<open>Errors\<close>

text \<open>
  \<^verbatim>\<open>new ApolloError(message, code, extensions)\<close>, and the \<^verbatim>\<open>TypeError\<close> the runtime
  raises, with its message, on a method call that the value does not support.
\<close>

datatype error =
  ApolloError jsstring string "(string \<times> jsstring) list"
| TypeError jsstring

fun error_message :: "error \<Rightarrow> jsstring" where
  "error_message (ApolloError m c ext) = m"
| "error_message (TypeError m) = m"

fun error_code :: "error \<Rightarrow> string option" where
  "error_code (ApolloError m c ext) = Some c"
| "error_code (TypeError m) = None"

text \<open>
  \<^verbatim>\<open>expr.toUpperCase()\<close>: a string has the method; on \<^verbatim>\<open>undefined\<close> and \<^verbatim>\<open>null\<close> the
  property cannot be read, on any other value it is not a function. The texts are those
  of V8, the engine of Node.js.
\<close>

fun call_toUpperCase :: "case_mapping \<Rightarrow> string \<Rightarrow> jsval \<Rightarrow> error + jsstring" where
  "call_toUpperCase um expr (Str s) = Inr (toUpperCase um s)"
| "call_toUpperCase um expr Undefined =
     Inl (TypeError (js ''Cannot read properties of undefined (reading ''
                     @ quote @ js ''toUpperCase'' @ quote @ js '')''))"
| "call_toUpperCase um expr Null =
     Inl (TypeError (js ''Cannot read properties of null (reading ''
                     @ quote @ js ''toUpperCase'' @ quote @ js '')''))"
| "call_toUpperCase um expr _ =
     Inl (TypeError (js expr @ js ''.toUpperCase is not a function''))"

text \<open>An array-valued field: the array, or the value found where an array is expected.\<close>

datatype 'a js_array = NoArray jsval | IsArray "'a list"

section \<open>Criteria validation\<close>

record condition =
  criteria_type :: jsval
  comparison_operator :: jsval
  mark :: jsval
  notation_text :: jsval

definition validCriteriaType :: "jsstring list" where
  "validCriteriaType = [js ''MARK'', js ''AVERAGE'']"

definition validComparisonOperator :: "jsstring list" where
  "validComparisonOperator = [js ''GTE'', js ''LTE'', js ''GT'', js ''LT'', js ''E'']"

text \<open>\<^verbatim>\<open>typeof v !== 'string' || !valid.includes(v.toUpperCase())\<close>\<close>

fun not_in_enum :: "case_mapping \<Rightarrow> jsstring list \<Rightarrow> jsval \<Rightarrow> bool" where
  "not_in_enum um valid (Str s) = (\<not> includes_str valid (toUpperCase um s))"
| "not_in_enum um valid _ = True"

text \<open>\<^verbatim>\<open>typeof condition.mark !== 'number' || condition.mark < 0\<close>\<close>

fun bad_mark :: "jsval \<Rightarrow> bool" where
  "bad_mark (Num n) = num_lt_zero n"
| "bad_mark _ = True"

text \<open>\<^verbatim>\<open>condition.criteria_type.toUpperCase() === 'MARK'\<close>, reached with a string only.\<close>

fun is_MARK :: "case_mapping \<Rightarrow> jsval \<Rightarrow> bool" where
  "is_MARK um (Str s) = (toUpperCase um s = js ''MARK'')"
| "is_MARK um _ = False"

text \<open>\<^verbatim>\<open>typeof condition.notation_text !== 'string' || condition.notation_text.trim() === ''\<close>\<close>

fun blank_text :: "jsval \<Rightarrow> bool" where
  "blank_text (Str s) = (trim s = [])"
| "blank_text _ = True"

definition criteria_type_error :: "jsstring \<Rightarrow> error" where
  "criteria_type_error path =
     ApolloError (js ''Field '' @ quote @ path @ js ''.criteria_type'' @ quote
                  @ js '' is required and must be one of: ''
                  @ join validCriteriaType (js '', '') @ js ''.'')
       ''BAD_USER_INPUT'' []"

definition comparison_operator_error :: "jsstring \<Rightarrow> error" where
  "comparison_operator_error path =
     ApolloError (js ''Field '' @ quote @ path @ js ''.comparison_operator'' @ quote
                  @ js '' is required and must be one of: ''
                  @ join validComparisonOperator (js '', '') @ js ''.'')
       ''BAD_USER_INPUT'' []"

definition mark_error :: "jsstring \<Rightarrow> error" where
  "mark_error path =
     ApolloError (js ''Field '' @ quote @ path @ js ''.mark'' @ quote
                  @ js '' is required and must be a number '' @ ge_sign @ js '' 0.'')
       ''BAD_USER_INPUT'' []"

definition notation_missing_error :: "jsstring \<Rightarrow> error" where
  "notation_missing_error path =
     ApolloError (js ''Field '' @ quote @ path @ js ''.notation_text'' @ quote
                  @ js '' is required and must be a non-empty string when '' @ quote
                  @ js ''criteria_type'' @ quote @ js '' is '' @ quote @ js ''MARK''
                  @ quote @ js ''.'')
       ''BAD_USER_INPUT'' []"

text \<open>Reached with a string \<open>notation_text\<close> only, which the template prints as it is.\<close>

definition notation_unknown_error :: "jsstring \<Rightarrow> jsval \<Rightarrow> error" where
  "notation_unknown_error path v =
     ApolloError (js ''Value '' @ dquote @ (case v of Str s \<Rightarrow> s | _ \<Rightarrow> [])
                  @ dquote @ js '' in '' @ quote @ path @ js ''.notation_text'' @ quote
                  @ js '' does not match any notation defined for this test.'')
       ''BAD_USER_INPUT'' []"

text \<open>
  \<^verbatim>\<open>validateSingleNotationCondition({ condition, availableNotationTexts, path })\<close>:
  \<open>Inr ()\<close> when it returns, \<open>Inl e\<close> when it throws \<open>e\<close>. The set of available
  texts is the list it was built from.
\<close>

definition validateSingleNotationCondition ::
  "case_mapping \<Rightarrow> condition \<Rightarrow> jsval list \<Rightarrow> jsstring \<Rightarrow> error + unit" where
  "validateSingleNotationCondition um cond availableNotationTexts path =
     (if not_in_enum um validCriteriaType (criteria_type cond) then
        Inl (criteria_type_error path)
      else if not_in_enum um validComparisonOperator (comparison_operator cond) then
        Inl (comparison_operator_error path)
      else if bad_mark (mark cond) then
        Inl (mark_error path)
      else if is_MARK um (criteria_type cond) then
        (if blank_text (notation_text cond) then
           Inl (notation_missing_error path)
         else if notation_text cond \<notin> set availableNotationTexts then
           Inl (notation_unknown_error path (notation_text cond))
         else Inr ())
      else Inr ())"

subsection \<open>Groups and branches\<close>

text \<open>
  \<^verbatim>\<open>xs.forEach((x, i) => ...)\<close> with a callback that may throw: the first exception ends
  the loop. The index counts from the third argument.
\<close>

fun forEach :: "('a \<Rightarrow> nat \<Rightarrow> error + unit) \<Rightarrow> 'a list \<Rightarrow> nat \<Rightarrow> error + unit" where
  "forEach f [] i = Inr ()"
| "forEach f (x # xs) i = (case f x i of Inl e \<Rightarrow> Inl e | Inr _ \<Rightarrow> forEach f xs (Suc i))"

record criteria_group =
  conditions :: "condition js_array"

record criteria_branch =
  test_criteria_groups :: "criteria_group js_array"

text \<open>
  A branch that is falsy (\<^verbatim>\<open>undefined\<close>, \<^verbatim>\<open>null\<close>, \<^verbatim>\<open>false\<close>, \<^verbatim>\<open>0\<close>, \<^verbatim>\<open>NaN\<close> or the
  empty string) is \<open>None\<close>: \<^verbatim>\<open>if (branch)\<close> skips it. Every other value is read for its
  \<^verbatim>\<open>test_criteria_groups\<close>.
\<close>

record testPassingCriteria =
  pass_criteria :: "criteria_branch option"
  fail_criteria :: "criteria_branch option"

record test_notation =
  n_notation_text :: jsval
  n_max_points :: jsval

definition groups_error :: "jsstring \<Rightarrow> error" where
  "groups_error path =
     ApolloError (js ''Field '' @ quote @ path @ quote
                  @ js '' must be a non-empty array of criteria groups.'')
       ''BAD_USER_INPUT'' []"

definition conditions_error :: "jsstring \<Rightarrow> error" where
  "conditions_error groupPath =
     ApolloError (js ''Field '' @ quote @ groupPath @ js ''.conditions'' @ quote
                  @ js '' must be a non-empty array.'')
       ''BAD_USER_INPUT'' []"

text \<open>The body of the outer \<^verbatim>\<open>forEach\<close> of \<^verbatim>\<open>validateTestCriteriaGroups\<close>.\<close>

definition validate_group ::
  "case_mapping \<Rightarrow> jsval list \<Rightarrow> jsstring \<Rightarrow> criteria_group \<Rightarrow> nat \<Rightarrow> error + unit" where
  "validate_group um availableNotationTexts path grp groupIndex =
     (let groupPath = path @ js ''['' @ string_of_nat groupIndex @ js '']'' in
      case conditions grp of
        NoArray v \<Rightarrow> Inl (conditions_error groupPath)
      | IsArray cs \<Rightarrow>
          if length cs = 0 then Inl (conditions_error groupPath)
          else forEach (\<lambda>condition condIndex.
                 validateSingleNotationCondition um condition availableNotationTexts
                   (groupPath @ js ''.conditions['' @ string_of_nat condIndex @ js '']''))
                 cs 0)"

definition validateTestCriteriaGroups ::
  "case_mapping \<Rightarrow> criteria_group js_array \<Rightarrow> jsval list \<Rightarrow> jsstring \<Rightarrow> error + unit" where
  "validateTestCriteriaGroups um criteriaGroups availableNotationTexts path =
     (case criteriaGroups of
        NoArray v \<Rightarrow> Inl (groups_error path)
      | IsArray gs \<Rightarrow>
          if length gs = 0 then Inl (groups_error path)
          else forEach (validate_group um availableNotationTexts path) gs 0)"

definition no_branch_error :: error where
  "no_branch_error =
     ApolloError (js ''Field '' @ quote @ js ''test_passing_criteria'' @ quote
                  @ js '' must contain at least one of '' @ quote @ js ''pass_criteria''
                  @ quote @ js '' or '' @ quote @ js ''fail_criteria'' @ quote @ js ''.'')
       ''BAD_USER_INPUT'' []"

text \<open>\<^verbatim>\<open>if (branch) validateTestCriteriaGroups({...})\<close>\<close>

definition validate_branch ::
  "case_mapping \<Rightarrow> criteria_branch option \<Rightarrow> jsval list \<Rightarrow> jsstring \<Rightarrow> error + unit" where
  "validate_branch um branch availableNotationTexts path =
     (case branch of
        None \<Rightarrow> Inr ()
      | Some b \<Rightarrow>
          validateTestCriteriaGroups um (test_criteria_groups b) availableNotationTexts path)"

definition validateTestPassingCriteriaInput ::
  "case_mapping \<Rightarrow> testPassingCriteria \<Rightarrow> test_notation list \<Rightarrow> error + unit" where
  "validateTestPassingCriteriaInput um testPassingCriteria notations =
     (if pass_criteria testPassingCriteria = None \<and> fail_criteria testPassingCriteria = None
      then Inl no_branch_error
      else
        let availableNotationTexts = map n_notation_text notations in
        case validate_branch um (pass_criteria testPassingCriteria) availableNotationTexts
               (js ''test_passing_criteria.pass_criteria.test_criteria_groups'') of
          Inl e \<Rightarrow> Inl e
        | Inr _ \<Rightarrow>
            validate_branch um (fail_criteria testPassingCriteria) availableNotationTexts
              (js ''test_passing_criteria.fail_criteria.test_criteria_groups''))"

section \<open>Test input validation\<close>

text \<open>
  A JavaScript object read by property name: an absent property reads as \<open>Undefined\<close>.
\<close>

type_synonym js_object = "string \<Rightarrow> jsval"

definition obj_of :: "(string \<times> jsval) list \<Rightarrow> js_object" where
  "obj_of kvs k = (case map_of kvs k of Some v \<Rightarrow> v | None \<Rightarrow> Undefined)"

text \<open>
  The test input: its scalar properties by name, its \<^verbatim>\<open>notations\<close>, and its
  \<^verbatim>\<open>test_passing_criteria\<close> (\<open>None\<close> when the property is falsy).
\<close>

record test_input =
  props :: js_object
  notations :: "test_notation js_array"
  test_passing_criteria :: "testPassingCriteria option"

record rule =
  field :: string
  required :: bool
  validate :: "jsval \<Rightarrow> bool"
  message :: jsstring

definition validTestType :: "jsstring list" where
  "validTestType = [js ''FREE_CONTINUOUS_CONTROL'', js ''MEMMOIRE_ORAL_NON_JURY'',
     js ''MEMOIRE_ORAL'', js ''MEMOIRE_WRITTEN'', js ''MENTOR_EVALUATION'', js ''ORAL'',
     js ''WRITTEN'']"

definition validResultVisibility :: "jsstring list" where
  "validResultVisibility = [js ''NEVER'', js ''AFTER_CORRECTION'',
     js ''AFTER_JURY_DECISION_FOR_FINAL_TRANSCRIPT'']"

definition validCorrectionType :: "jsstring list" where
  "validCorrectionType = [js ''ADMTC'', js ''CERTIFIER'', js ''CROSS_CORRECTION'',
     js ''PREPARATION_CENTER'']"

definition validStatus :: "jsstring list" where
  "validStatus = [js ''ACTIVE'', js ''INACTIVE'']"

text \<open>\<^verbatim>\<open>typeof val === 'string' && val.trim() !== ''\<close>\<close>

definition nonblank_string :: "jsval \<Rightarrow> bool" where
  "nonblank_string val = (\<not> blank_text val)"

text \<open>\<^verbatim>\<open>typeof val === 'string' && valid.includes(val.toUpperCase())\<close>\<close>

definition in_enum :: "case_mapping \<Rightarrow> jsstring list \<Rightarrow> jsval \<Rightarrow> bool" where
  "in_enum um valid val = (\<not> not_in_enum um valid val)"

text \<open>\<^verbatim>\<open>typeof val === 'number' && !isNaN(val) && val >= 0 && val <= 1\<close>\<close>

fun valid_weight :: "jsval \<Rightarrow> bool" where
  "valid_weight (Num n) = (\<not> isNaN n \<and> num_ge_zero n \<and> num_le_one n)"
| "valid_weight _ = False"

definition validationRules :: "case_mapping \<Rightarrow> rule list" where
  "validationRules um =
    [\<lparr>field = ''name'', required = True, validate = nonblank_string,
      message = js ''Name is required.''\<rparr>,
     \<lparr>field = ''description'', required = True, validate = nonblank_string,
      message = js ''Description is required.''\<rparr>,
     \<lparr>field = ''test_type'', required = True, validate = in_enum um validTestType,
      message = js ''Test type must be one of: '' @ join validTestType (js '', '')
                @ js ''.''\<rparr>,
     \<lparr>field = ''result_visibility'', required = True,
      validate = in_enum um validResultVisibility,
      message = js ''Result visibility must be one of: ''
                @ join validResultVisibility (js '', '') @ js ''.''\<rparr>,
     \<lparr>field = ''weight'', required = True, validate = valid_weight,
      message = js ''Weight is required and must be a number between 0 and 1.''\<rparr>,
     \<lparr>field = ''correction_type'', required = True,
      validate = in_enum um validCorrectionType,
      message = js ''Correction type must be one of: ''
                @ join validCorrectionType (js '', '') @ js ''.''\<rparr>,
     \<lparr>field = ''is_retake'', required = True, validate = (\<lambda>val. typeof val = T_boolean),
      message = js ''is_retake must be a boolean.''\<rparr>,
     \<lparr>field = ''test_status'', required = False, validate = in_enum um validStatus,
      message = js ''Test status must be one of: '' @ join validStatus (js '', '')
                @ js ''.''\<rparr>]"

text \<open>The loop over the rules: the first rule that fails throws.\<close>

fun check_rules :: "js_object \<Rightarrow> bool \<Rightarrow> rule list \<Rightarrow> error + unit" where
  "check_rules testInput isUpdate [] = Inr ()"
| "check_rules testInput isUpdate (r # rs) =
     (let val = testInput (field r) in
      if ((\<not> isUpdate \<and> required r) \<or> val \<noteq> Undefined) \<and> \<not> validate r val
      then Inl (ApolloError (message r) ''BAD_USER_INPUT'' [(''field'', js (field r))])
      else check_rules testInput isUpdate rs)"

definition notations_error :: error where
  "notations_error =
     ApolloError (js ''Notations must be a non-empty array.'') ''BAD_USER_INPUT''
       [(''field'', js ''notations'')]"

definition notation_text_error :: "nat \<Rightarrow> error" where
  "notation_text_error index =
     ApolloError (js ''Notation at index '' @ string_of_nat index
                  @ js '' must have non-empty text.'')
       ''BAD_USER_INPUT''
       [(''field'', js ''notations['' @ string_of_nat index @ js ''].notation_text'')]"

definition max_points_error :: "nat \<Rightarrow> error" where
  "max_points_error index =
     ApolloError (js ''Notation at index '' @ string_of_nat index
                  @ js '' must have a valid max_points (number '' @ ge_sign @ js '' 0).'')
       ''BAD_USER_INPUT''
       [(''field'', js ''notations['' @ string_of_nat index @ js ''].max_points'')]"

text \<open>\<^verbatim>\<open>typeof max_points !== 'number' || isNaN(max_points) || max_points < 0\<close>\<close>

fun bad_max_points :: "jsval \<Rightarrow> bool" where
  "bad_max_points (Num n) = (isNaN n \<or> num_lt_zero n)"
| "bad_max_points _ = True"

text \<open>The body of the loop over \<^verbatim>\<open>notations.entries()\<close>.\<close>

definition check_notation :: "test_notation \<Rightarrow> nat \<Rightarrow> error + unit" where
  "check_notation n index =
     (if \<not> truthy (n_notation_text n) \<or> typeof (n_notation_text n) \<noteq> T_string
         \<or> blank_text (n_notation_text n)
      then Inl (notation_text_error index)
      else if bad_max_points (n_max_points n) then Inl (max_points_error index)
      else Inr ())"

text \<open>
  What the surrounding libraries do: the upper-case mapping, \<^verbatim>\<open>mongoose.Types.ObjectId.isValid\<close>,
  and the conversion of a value to a string inside a template literal.
\<close>

record lib =
  upper_mapping :: case_mapping
  ObjectId_isValid :: "jsval \<Rightarrow> bool"
  ToString :: "jsval \<Rightarrow> jsstring"

definition competencyTestTypes :: "jsstring list" where
  "competencyTestTypes = [js ''ORAL'', js ''WRITTEN'', js ''MEMOIRE_WRITTEN'',
     js ''FREE_CONTINUOUS_CONTROL'', js ''MENTOR_EVALUATION'']"

definition scoreTestTypes :: "jsstring list" where
  "scoreTestTypes = [js ''FREE_CONTINUOUS_CONTROL'', js ''MEMMOIRE_ORAL_NON_JURY'',
     js ''MEMOIRE_ORAL'', js ''MEMOIRE_WRITTEN'', js ''MENTOR_EVALUATION'', js ''ORAL'',
     js ''WRITTEN'']"

definition no_notations_error :: error where
  "no_notations_error =
     ApolloError (js ''Cannot validate '' @ quote @ js ''test_passing_criteria'' @ quote
                  @ js '' because no notations are available for this test.'')
       ''BAD_USER_INPUT'' []"

text \<open>Lines 114 to 128: the \<^verbatim>\<open>notations\<close> of the input.\<close>

definition check_notations :: "test_notation js_array \<Rightarrow> bool \<Rightarrow> error + unit" where
  "check_notations ns isUpdate =
     (if \<not> isUpdate \<or> ns \<noteq> NoArray Undefined then
        (case ns of
           NoArray v \<Rightarrow> Inl notations_error
         | IsArray xs \<Rightarrow>
             if length xs = 0 then Inl notations_error else forEach check_notation xs 0)
      else Inr ())"

text \<open>Lines 130 to 137: a retake names the test it is connected to.\<close>

definition check_retake :: "lib \<Rightarrow> js_object \<Rightarrow> error + unit" where
  "check_retake l testInput =
     (if truthy (testInput ''is_retake'') then
        (if \<not> truthy (testInput ''connected_test'') then
           Inl (ApolloError (js ''connected_test is required when is_retake is true.'')
                  ''BAD_USER_INPUT'' [(''field'', js ''connected_test'')])
         else if \<not> ObjectId_isValid l (testInput ''connected_test'') then
           Inl (ApolloError
                  (js ''Invalid connected test ID: ''
                   @ ToString l (testInput ''connected_test''))
                  ''BAD_USER_INPUT'' [(''field'', js ''connected_test'')])
         else Inr ())
      else Inr ())"

text \<open>Lines 139 to 150: the test type against the evaluation type of the block.\<close>

definition check_test_type :: "lib \<Rightarrow> js_object \<Rightarrow> jsval \<Rightarrow> error + unit" where
  "check_test_type l testInput evaluationType =
     (if truthy (testInput ''test_type'') then
        (case call_toUpperCase (upper_mapping l) ''test_type'' (testInput ''test_type'') of
           Inl e \<Rightarrow> Inl e
         | Inr upperTestType \<Rightarrow>
             let isCompetencyMismatch =
                   (evaluationType = Str (js ''COMPETENCY'')
                    \<and> \<not> includes_str competencyTestTypes upperTestType);
                 isScoreMismatch =
                   (evaluationType = Str (js ''SCORE'')
                    \<and> \<not> includes_str scoreTestTypes upperTestType)
             in if isCompetencyMismatch \<or> isScoreMismatch then
                  Inl (ApolloError
                         (js ''Test type '' @ quote @ upperTestType @ quote
                          @ js '' is not allowed for block with evaluation_type '' @ quote
                          @ ToString l evaluationType @ quote @ js ''.'')
                         ''BAD_USER_INPUT'' [(''field'', js ''test_type'')])
                else Inr ())
      else Inr ())"

text \<open>\<^verbatim>\<open>a || b\<close> on array-valued fields: an array, even an empty one, is truthy.\<close>

fun array_truthy :: "'a js_array \<Rightarrow> bool" where
  "array_truthy (NoArray v) = truthy v"
| "array_truthy (IsArray xs) = True"

definition or_else :: "'a js_array \<Rightarrow> 'a js_array \<Rightarrow> 'a js_array" where
  "or_else a b = (if array_truthy a then a else b)"

text \<open>Lines 152 to 163: the passing criteria against the notations at hand.\<close>

definition check_passing_criteria ::
  "lib \<Rightarrow> test_input \<Rightarrow> test_notation js_array \<Rightarrow> error + unit" where
  "check_passing_criteria l testInput existingNotations =
     (case test_passing_criteria testInput of
        None \<Rightarrow> Inr ()
      | Some criteria \<Rightarrow>
          let notationsSource = or_else (notations testInput) existingNotations in
          (case notationsSource of
             NoArray v \<Rightarrow> Inl no_notations_error
           | IsArray xs \<Rightarrow>
               if length xs = 0 then Inl no_notations_error
               else validateTestPassingCriteriaInput (upper_mapping l) criteria xs))"

text \<open>
  \<^verbatim>\<open>ValidateTestInput({ testInput, evaluationType, existingNotations, isUpdate })\<close>: the
  checks in the order of the source, the first failure thrown.
\<close>

definition ValidateTestInput ::
  "lib \<Rightarrow> test_input \<Rightarrow> jsval \<Rightarrow> test_notation js_array \<Rightarrow> bool \<Rightarrow> error + unit" where
  "ValidateTestInput l testInput evaluationType existingNotations isUpdate =
     (case check_rules (props testInput) isUpdate (validationRules (upper_mapping l)) of
        Inl e \<Rightarrow> Inl e
      | Inr _ \<Rightarrow>
     (case check_notations (notations testInput) isUpdate of
        Inl e \<Rightarrow> Inl e
      | Inr _ \<Rightarrow>
     (case check_retake l (props testInput) of
        Inl e \<Rightarrow> Inl e
      | Inr _ \<Rightarrow>
     (case check_test_type l (props testInput) evaluationType of
        Inl e \<Rightarrow> Inl e
      | Inr _ \<Rightarrow> check_passing_criteria l testInput existingNotations))))"

section \<open>Task payloads\<close>

text \<open>
  The validators that \<^verbatim>\<open>task.helper.js\<close> imports from the shared and the task validator
  modules: each throws (\<open>Some e\<close>) or returns (\<open>None\<close>).
\<close>

record task_env =
  ValidateInputTypeObject :: "js_object \<Rightarrow> error option"
  ValidateObjectId :: "jsval \<Rightarrow> error option"
  ValidateTaskInput :: "js_object \<Rightarrow> error option"

text \<open>An object literal, as the list of its properties in the order they are written.\<close>

type_synonym payload = "(string \<times> jsval) list"

text \<open>The three validator calls that open the create and the update payload builders.\<close>

definition validate_task_args :: "task_env \<Rightarrow> js_object \<Rightarrow> jsval \<Rightarrow> error option" where
  "validate_task_args env taskInput userId =
     (case ValidateInputTypeObject env taskInput of
        Some e \<Rightarrow> Some e
      | None \<Rightarrow>
     (case ValidateObjectId env userId of
        Some e \<Rightarrow> Some e
      | None \<Rightarrow> ValidateTaskInput env taskInput))"

definition GetCreateTaskPayload ::
  "case_mapping \<Rightarrow> task_env \<Rightarrow> js_object \<Rightarrow> jsval \<Rightarrow> error + payload" where
  "GetCreateTaskPayload um env taskInput userId =
     (case validate_task_args env taskInput userId of
        Some e \<Rightarrow> Inl e
      | None \<Rightarrow>
     (case call_toUpperCase um ''task_type'' (taskInput ''task_type'') of
        Inl e \<Rightarrow> Inl e
      | Inr upper \<Rightarrow>
          Inr [(''test'', taskInput ''test''),
               (''user'', taskInput ''user''),
               (''title'', taskInput ''title''),
               (''description'', taskInput ''description''),
               (''task_type'', Str upper),
               (''task_status'', Str (js ''PENDING'')),
               (''due_date'', taskInput ''due_date''),
               (''created_by'', userId),
               (''updated_by'', userId)]))"

text \<open>\<^verbatim>\<open>v !== undefined && v !== null\<close>\<close>

definition supplied :: "jsval \<Rightarrow> bool" where
  "supplied v = (v \<noteq> Undefined \<and> v \<noteq> Null)"

text \<open>\<^verbatim>\<open>if (v !== undefined && v !== null) payload.k = v\<close>\<close>

definition copy_field :: "string \<Rightarrow> jsval \<Rightarrow> payload" where
  "copy_field k v = (if supplied v then [(k, v)] else [])"

text \<open>\<^verbatim>\<open>if (v !== undefined && v !== null) payload.k = v.toUpperCase()\<close>\<close>

definition copy_upper_field :: "case_mapping \<Rightarrow> string \<Rightarrow> jsval \<Rightarrow> error + payload" where
  "copy_upper_field um k v =
     (if supplied v then
        (case call_toUpperCase um k v of
           Inl e \<Rightarrow> Inl e
         | Inr upper \<Rightarrow> Inr [(k, Str upper)])
      else Inr [])"

definition GetUpdateTaskPayload ::
  "case_mapping \<Rightarrow> task_env \<Rightarrow> js_object \<Rightarrow> jsval \<Rightarrow> error + payload" where
  "GetUpdateTaskPayload um env taskInput userId =
     (case validate_task_args env taskInput userId of
        Some e \<Rightarrow> Inl e
      | None \<Rightarrow>
     (case copy_upper_field um ''task_type'' (taskInput ''task_type'') of
        Inl e \<Rightarrow> Inl e
      | Inr p_type \<Rightarrow>
     (case copy_upper_field um ''task_status'' (taskInput ''task_status'') of
        Inl e \<Rightarrow> Inl e
      | Inr p_status \<Rightarrow>
          Inr (copy_field ''user'' (taskInput ''user'')
               @ copy_field ''title'' (taskInput ''title'')
               @ copy_field ''description'' (taskInput ''description'')
               @ p_type
               @ p_status
               @ copy_field ''due_date'' (taskInput ''due_date'')
               @ [(''updated_by'', userId)]))))"

text \<open>\<^verbatim>\<open>Date.now()\<close> is an argument of the model: the milliseconds read at the call.\<close>

definition GetTaskCompletionPayload :: "task_env \<Rightarrow> jsval \<Rightarrow> nat \<Rightarrow> error + payload" where
  "GetTaskCompletionPayload env userId now =
     (case ValidateObjectId env userId of
        Some e \<Rightarrow> Inl e
      | None \<Rightarrow>
          Inr [(''task_status'', Str (js ''COMPLETED'')),
               (''completed_by'', userId),
               (''completed_at'', Num (Fin (real now))),
               (''updated_by'', userId)])"

definition GetStudentTestResultValidationPayload ::
  "task_env \<Rightarrow> jsval \<Rightarrow> nat \<Rightarrow> error + payload" where
  "GetStudentTestResultValidationPayload env userId now =
     (case ValidateObjectId env userId of
        Some e \<Rightarrow> Inl e
      | None \<Rightarrow>
          Inr [(''student_test_result_status'', Str (js ''VALIDATED'')),
               (''marks_validated_date'', Num (Fin (real now))),
               (''updated_by'', userId)])"

text \<open>
  The fields of the type \<^verbatim>\<open>StudentTestResult\<close> declared in
  \<^verbatim>\<open>student_test_result.typedef.js\<close>.
\<close>

definition StudentTestResult_fields :: "string list" where
  "StudentTestResult_fields =
     [''_id'', ''student'', ''test'', ''marks'', ''average_mark'', ''mark_entry_date'',
      ''mark_validated_date'', ''student_test_result_status'', ''created_by'', ''created_at'',
      ''updated_by'', ''updated_at'', ''deleted_by'', ''deleted_at'']"

subsection \<open>Deleting a task\<close>

text \<open>A filter and an update for the database, as the helpers build them.\<close>

datatype filter_value = Is jsval | In_ids "jsval list"

datatype update_op = Set_fields payload | Pull_from string jsval

record db_payload =
  filter_doc :: "(string \<times> filter_value) list"
  update_doc :: update_op

definition BuildPullTaskFromTestPayload :: "jsval \<Rightarrow> jsval \<Rightarrow> db_payload" where
  "BuildPullTaskFromTestPayload testId taskId =
     \<lparr>filter_doc = [(''_id'', Is testId)], update_doc = Pull_from ''tasks'' taskId\<rparr>"

text \<open>
  Modelled from the spec: \<^verbatim>\<open>CommonHelper.BuildDeletePayload\<close> of the shared helper
  module, which is not among the sources. The spec has a task soft-deleted: its status
  becomes \<^verbatim>\<open>DELETED\<close> and the audit fields \<^verbatim>\<open>deleted_by\<close> and \<^verbatim>\<open>deleted_at\<close> record
  who deleted it and when. The payload selects the documents named by \<^verbatim>\<open>ids\<close>.
\<close>

definition BuildDeletePayload :: "jsval list \<Rightarrow> string \<Rightarrow> nat \<Rightarrow> jsval \<Rightarrow> db_payload" where
  "BuildDeletePayload ids statusKey timestamp userId =
     \<lparr>filter_doc = [(''_id'', In_ids ids)],
      update_doc = Set_fields [(statusKey, Str (js ''DELETED'')),
                               (''deleted_by'', userId),
                               (''deleted_at'', Num (Fin (real timestamp)))]\<rparr>"

text \<open>
  \<^verbatim>\<open>TaskModel.findOne({ _id: taskId, task_status: { $ne: 'DELETED' } })\<close> over the task
  collection, a list of documents: the first document that matches, or \<^verbatim>\<open>null\<close>.
\<close>

definition findOne_not_deleted :: "js_object list \<Rightarrow> jsval \<Rightarrow> js_object option" where
  "findOne_not_deleted tasks taskId =
     find (\<lambda>t. t ''_id'' = taskId \<and> t ''task_status'' \<noteq> Str (js ''DELETED'')) tasks"

record delete_task_payload =
  task :: db_payload
  test :: db_payload

text \<open>The \<^verbatim>\<open>try\<close> block of \<^verbatim>\<open>GetDeleteTaskPayload\<close>.\<close>

definition delete_task_try ::
  "task_env \<Rightarrow> js_object list \<Rightarrow> nat \<Rightarrow> jsval \<Rightarrow> jsval \<Rightarrow> error + delete_task_payload" where
  "delete_task_try env tasks now taskId userId =
     (case ValidateObjectId env taskId of
        Some e \<Rightarrow> Inl e
      | None \<Rightarrow>
     (case ValidateObjectId env userId of
        Some e \<Rightarrow> Inl e
      | None \<Rightarrow>
     (case findOne_not_deleted tasks taskId of
        None \<Rightarrow> Inl (ApolloError (js ''Task not found'') ''TASK_NOT_FOUND'' [])
      | Some t \<Rightarrow>
          Inr \<lparr>task = BuildDeletePayload [taskId] ''task_status'' now userId,
               test = BuildPullTaskFromTestPayload (t ''test'') taskId\<rparr>)))"

text \<open>The \<^verbatim>\<open>catch\<close> clause wraps whatever was thrown.\<close>

definition GetDeleteTaskPayload ::
  "task_env \<Rightarrow> js_object list \<Rightarrow> nat \<Rightarrow> jsval \<Rightarrow> jsval \<Rightarrow> error + delete_task_payload" where
  "GetDeleteTaskPayload env tasks now taskId userId =
     (case delete_task_try env tasks now taskId userId of
        Inl error \<Rightarrow>
          Inl (ApolloError (js ''Failed to build delete task payload: '' @ error_message error)
                 ''GET_DELETE_TASK_PAYLOAD_FAILED'' [(''error'', error_message error)])
      | Inr p \<Rightarrow> Inr p)"

subsection \<open>Task documents\<close>

text \<open>
  The resolvers hand a create payload to \<^verbatim>\<open>Model.create\<close> and an update payload to
  \<^verbatim>\<open>Model.findOneAndUpdate(filter, { $set: payload })\<close>, as the school resolvers among the
  sources do: a created document holds the properties of the payload, an update overwrites
  the properties the payload names and leaves the others.
\<close>

definition set_fields :: "js_object \<Rightarrow> payload \<Rightarrow> js_object" where
  "set_fields doc p = (\<lambda>k. case map_of p k of Some v \<Rightarrow> v | None \<Rightarrow> doc k)"

datatype task_event =
  UpdateTask js_object jsval
| CompleteTask jsval nat

text \<open>One transition on a stored task; a transition that throws changes nothing.\<close>

fun apply_event :: "case_mapping \<Rightarrow> task_env \<Rightarrow> js_object \<Rightarrow> task_event \<Rightarrow> js_object" where
  "apply_event um env doc (UpdateTask taskInput userId) =
     (case GetUpdateTaskPayload um env taskInput userId of
        Inl e \<Rightarrow> doc
      | Inr p \<Rightarrow> set_fields doc p)"
| "apply_event um env doc (CompleteTask userId now) =
     (case GetTaskCompletionPayload env userId now of
        Inl e \<Rightarrow> doc
      | Inr p \<Rightarrow> set_fields doc p)"

fun run_events ::
  "case_mapping \<Rightarrow> task_env \<Rightarrow> js_object \<Rightarrow> task_event list \<Rightarrow> js_object" where
  "run_events um env doc [] = doc"
| "run_events um env doc (ev # evs) = run_events um env (apply_event um env doc ev) evs"

text \<open>
  The property of the data model: \<^verbatim>\<open>completed_by\<close> and \<^verbatim>\<open>completed_at\<close> are set exactly
  when the status is \<^verbatim>\<open>COMPLETED\<close>.
\<close>

definition completed_fields_set :: "js_object \<Rightarrow> bool" where
  "completed_fields_set doc = (supplied (doc ''completed_by'') \<and> supplied (doc ''completed_at''))"

definition completed_iff :: "js_object \<Rightarrow> bool" where
  "completed_iff doc =
     (completed_fields_set doc = (doc ''task_status'' = Str (js ''COMPLETED'')))"

text \<open>
  An update keeps the status class of the task when the \<^verbatim>\<open>task_status\<close> it carries, if
  any, is \<^verbatim>\<open>COMPLETED\<close> exactly when the stored status is.
\<close>

fun status_kept :: "case_mapping \<Rightarrow> js_object \<Rightarrow> task_event \<Rightarrow> bool" where
  "status_kept um doc (UpdateTask taskInput userId) =
     (case taskInput ''task_status'' of
        Str s \<Rightarrow> (toUpperCase um s = js ''COMPLETED'')
                 = (doc ''task_status'' = Str (js ''COMPLETED''))
      | _ \<Rightarrow> True)"
| "status_kept um doc (CompleteTask userId now) = True"

fun all_status_kept ::
  "case_mapping \<Rightarrow> task_env \<Rightarrow> js_object \<Rightarrow> task_event list \<Rightarrow> bool" where
  "all_status_kept um env doc [] = True"
| "all_status_kept um env doc (ev # evs) =
     (status_kept um doc ev \<and> all_status_kept um env (apply_event um env doc ev) evs)"

text \<open>The id validator accepts no \<^verbatim>\<open>undefined\<close> and no \<^verbatim>\<open>null\<close>.\<close>

definition ids_are_set :: "task_env \<Rightarrow> bool" where
  "ids_are_set env = (\<forall>v. ValidateObjectId env v = None \<longrightarrow> supplied v)"

text \<open>The properties that \<^verbatim>\<open>GetUpdateTaskPayload\<close> reads from its input.\<close>

definition update_fields :: "string list" where
  "update_fields = [''user'', ''title'', ''description'', ''task_type'', ''task_status'',
     ''due_date'']"

subsection \<open>Examples\<close>

text \<open>An environment for examples: an id is a string of 24 characters, every input passes.\<close>

definition example_env :: task_env where
  "example_env =
     \<lparr>ValidateInputTypeObject = (\<lambda>x. None),
      ValidateObjectId = (\<lambda>v. case v of
          Str s \<Rightarrow> if length s = 24 then None
                   else Some (ApolloError (js ''Invalid ID'') ''BAD_USER_INPUT'' [])
        | _ \<Rightarrow> Some (ApolloError (js ''Invalid ID'') ''BAD_USER_INPUT'' [])),
      ValidateTaskInput = (\<lambda>x. None)\<rparr>"

definition example_id :: jsval where
  "example_id = Str (js ''507f1f77bcf86cd799439011'')"

definition example_task_id :: jsval where
  "example_task_id = Str (js ''64b0c0ffee64b0c0ffee0007'')"

definition example_test_id :: jsval where
  "example_test_id = Str (js ''64b0c0ffee64b0c0ffee0001'')"

definition example_create_input :: js_object where
  "example_create_input =
     obj_of [(''test'', example_test_id), (''user'', example_id),
             (''title'', Str (js ''Enter marks'')),
             (''description'', Str (js ''Marks of the oral test'')),
             (''task_type'', Str (js ''ENTER_MARKS''))]"

definition example_created :: payload where
  "example_created =
     [(''test'', example_test_id), (''user'', example_id),
      (''title'', Str (js ''Enter marks'')),
      (''description'', Str (js ''Marks of the oral test'')),
      (''task_type'', Str (js ''ENTER_MARKS'')), (''task_status'', Str (js ''PENDING'')),
      (''due_date'', Undefined), (''created_by'', example_id), (''updated_by'', example_id)]"

definition example_update_input :: "string \<Rightarrow> js_object" where
  "example_update_input status =
     obj_of [(''user'', example_id), (''title'', Str (js ''Enter marks'')),
             (''description'', Str (js ''Marks of the oral test'')),
             (''task_type'', Str (js ''ENTER_MARKS'')), (''task_status'', Str (js status))]"

definition example_lib :: lib where
  "example_lib =
     \<lparr>upper_mapping = ascii_upper,
      ObjectId_isValid = (\<lambda>v. case v of Str s \<Rightarrow> length s = 24 | _ \<Rightarrow> False),
      ToString = (\<lambda>v. case v of Str s \<Rightarrow> s | _ \<Rightarrow> [])\<rparr>"

text \<open>A test input for an update that carries passing criteria on one notation.\<close>

definition example_criteria :: "string \<Rightarrow> testPassingCriteria" where
  "example_criteria nt =
     \<lparr>pass_criteria = Some \<lparr>test_criteria_groups = IsArray [\<lparr>conditions = IsArray
        [\<lparr>criteria_type = Str (js ''MARK''), comparison_operator = Str (js ''GTE''),
          mark = Num (Fin 10), notation_text = Str (js nt)\<rparr>]\<rparr>]\<rparr>,
      fail_criteria = None\<rparr>"

definition example_notation :: "string \<Rightarrow> test_notation" where
  "example_notation nt = \<lparr>n_notation_text = Str (js nt), n_max_points = Num (Fin 20)\<rparr>"

definition example_update :: "test_notation js_array \<Rightarrow> string \<Rightarrow> test_input" where
  "example_update ns nt =
     \<lparr>props = obj_of [], notations = ns,
      test_passing_criteria = Some (example_criteria nt)\<rparr>"

section \<open>Criteria evaluation and classification\<close>

text \<open>
  Modelled from the spec: the criteria evaluator and the classification of a result
  (sections 4.2 and 4.3 of the spec), which are not among the sources. The evaluator works
  on a validated branch, so its conditions are typed.
\<close>

datatype criteria_kind = MARK | AVERAGE

datatype comparison = GTE | LTE | GT | LT | E

record eval_condition =
  ec_criteria_type :: criteria_kind
  ec_comparison_operator :: comparison
  ec_mark :: real
  ec_notation_text :: jsstring

record entered_mark =
  m_notation_text :: jsstring
  m_mark :: real

fun comparisonOperator :: "comparison \<Rightarrow> real \<Rightarrow> real \<Rightarrow> bool" where
  "comparisonOperator GTE x y = (x \<ge> y)"
| "comparisonOperator LTE x y = (x \<le> y)"
| "comparisonOperator GT x y = (x > y)"
| "comparisonOperator LT x y = (x < y)"
| "comparisonOperator E x y = (x = y)"

text \<open>
  Modelled from the spec: a condition holds when the comparison holds of the observed
  value, the entered mark of the notation or the average; a condition on a notation with no
  entered mark does not hold.
\<close>

definition condition_satisfied :: "entered_mark list \<Rightarrow> real \<Rightarrow> eval_condition \<Rightarrow> bool" where
  "condition_satisfied marks average c =
     (case ec_criteria_type c of
        MARK \<Rightarrow>
          (case find (\<lambda>m. m_notation_text m = ec_notation_text c) marks of
             None \<Rightarrow> False
           | Some m \<Rightarrow> comparisonOperator (ec_comparison_operator c) (m_mark m) (ec_mark c))
      | AVERAGE \<Rightarrow> comparisonOperator (ec_comparison_operator c) average (ec_mark c))"

text \<open>Modelled from the spec: a group is the conjunction of its conditions.\<close>

definition group_satisfied :: "entered_mark list \<Rightarrow> real \<Rightarrow> eval_condition list \<Rightarrow> bool" where
  "group_satisfied marks average g = list_all (condition_satisfied marks average) g"

text \<open>Modelled from the spec: a branch is the disjunction of its groups.\<close>

definition branch_satisfied ::
  "entered_mark list \<Rightarrow> real \<Rightarrow> eval_condition list list \<Rightarrow> bool" where
  "branch_satisfied marks average b = list_ex (group_satisfied marks average) b"

datatype outcome = FAIL | PASS | INDETERMINATE

text \<open>
  Modelled from the spec: the classification of section 4.3, \<^verbatim>\<open>fail_criteria\<close> first.
\<close>

definition classify ::
  "eval_condition list list option \<Rightarrow> eval_condition list list option \<Rightarrow>
   entered_mark list \<Rightarrow> real \<Rightarrow> outcome" where
  "classify pass_branch fail_branch marks average =
     (if (case fail_branch of None \<Rightarrow> False | Some b \<Rightarrow> branch_satisfied marks average b)
      then FAIL
      else if (case pass_branch of None \<Rightarrow> False | Some b \<Rightarrow> branch_satisfied marks average b)
      then PASS
      else INDETERMINATE)"

section \<open>Statements about criteria validation\<close>

text \<open>The conditions of a criteria tree, and the shape the validator asks of it.\<close>

fun array_items :: "'a js_array \<Rightarrow> 'a list" where
  "array_items (NoArray v) = []"
| "array_items (IsArray xs) = xs"

fun nonempty_array :: "'a js_array \<Rightarrow> bool" where
  "nonempty_array (NoArray v) = False"
| "nonempty_array (IsArray xs) = (xs \<noteq> [])"

definition branch_conditions :: "criteria_branch option \<Rightarrow> condition list" where
  "branch_conditions branch =
     (case branch of
        None \<Rightarrow> []
      | Some b \<Rightarrow> concat (map (\<lambda>g. array_items (conditions g))
                              (array_items (test_criteria_groups b))))"

definition all_conditions :: "testPassingCriteria \<Rightarrow> condition list" where
  "all_conditions c = branch_conditions (pass_criteria c) @ branch_conditions (fail_criteria c)"

definition branch_shaped :: "criteria_branch option \<Rightarrow> bool" where
  "branch_shaped branch =
     (case branch of
        None \<Rightarrow> True
      | Some b \<Rightarrow> nonempty_array (test_criteria_groups b)
                  \<and> list_all (\<lambda>g. nonempty_array (conditions g))
                       (array_items (test_criteria_groups b)))"

definition tree_shaped :: "testPassingCriteria \<Rightarrow> bool" where
  "tree_shaped c = (branch_shaped (pass_criteria c) \<and> branch_shaped (fail_criteria c))"

text \<open>What the validator accepts of one condition.\<close>

definition condition_accepted :: "case_mapping \<Rightarrow> jsval list \<Rightarrow> condition \<Rightarrow> bool" where
  "condition_accepted um texts c =
     (\<not> not_in_enum um validCriteriaType (criteria_type c)
      \<and> \<not> not_in_enum um validComparisonOperator (comparison_operator c)
      \<and> \<not> bad_mark (mark c)
      \<and> (is_MARK um (criteria_type c) \<longrightarrow>
           \<not> blank_text (notation_text c) \<and> notation_text c \<in> set texts))"

text \<open>A number that is at least 0.\<close>

fun nonneg_number :: "jsval \<Rightarrow> bool" where
  "nonneg_number (Num n) = num_ge_zero n"
| "nonneg_number _ = False"

text \<open>
  The condition of the statement as it was made: valid enum fields, and the text of a
  \<^verbatim>\<open>MARK\<close> condition in the notation set.
\<close>

definition claimed_ok :: "case_mapping \<Rightarrow> jsval list \<Rightarrow> condition \<Rightarrow> bool" where
  "claimed_ok um texts c =
     (in_enum um validCriteriaType (criteria_type c)
      \<and> in_enum um validComparisonOperator (comparison_operator c)
      \<and> (is_MARK um (criteria_type c) \<longrightarrow> notation_text c \<in> set texts))"

text \<open>The same with the mark and the blank text that the validator also looks at.\<close>

definition amended_ok :: "case_mapping \<Rightarrow> jsval list \<Rightarrow> condition \<Rightarrow> bool" where
  "amended_ok um texts c =
     (claimed_ok um texts c \<and> nonneg_number (mark c)
      \<and> (is_MARK um (criteria_type c) \<longrightarrow> nonblank_string (notation_text c)))"



section \<open>Statements about test input validation\<close>

text \<open>
  The notations the criteria are to be validated against, in the words of the spec: the
  newly submitted notations when the input has them, the existing ones otherwise.
\<close>

definition notations_for_criteria ::
  "test_input \<Rightarrow> test_notation js_array \<Rightarrow> test_notation js_array" where
  "notations_for_criteria testInput existingNotations =
     (if notations testInput \<noteq> NoArray Undefined then notations testInput
      else existingNotations)"

text \<open>The checks of \<^verbatim>\<open>ValidateTestInput\<close> that come before the passing criteria.\<close>

definition earlier_checks ::
  "lib \<Rightarrow> test_input \<Rightarrow> jsval \<Rightarrow> bool \<Rightarrow> error + unit" where
  "earlier_checks l testInput evaluationType isUpdate =
     (case check_rules (props testInput) isUpdate (validationRules (upper_mapping l)) of
        Inl e \<Rightarrow> Inl e
      | Inr _ \<Rightarrow>
     (case check_notations (notations testInput) isUpdate of
        Inl e \<Rightarrow> Inl e
      | Inr _ \<Rightarrow>
     (case check_retake l (props testInput) of
        Inl e \<Rightarrow> Inl e
      | Inr _ \<Rightarrow> check_test_type l (props testInput) evaluationType)))"

section \<open>Properties of criteria validation\<close>

lemma forEach_ok_iff:
  "(forEach f xs i = Inr ()) = (\<forall>j < length xs. f (xs ! j) (i + j) = Inr ())"
proof (induction xs arbitrary: i)
  case Nil
  then show ?case by simp
next
  case (Cons x xs)
  show ?case
  proof (cases "f x i")
    case (Inl e)
    then show ?thesis by force
  next
    case (Inr u)
    have "(\<forall>j < Suc (length xs). f ((x # xs) ! j) (i + j) = Inr ())
          = (\<forall>j < length xs. f (xs ! j) (Suc i + j) = Inr ())"
      using Inr by (auto simp: less_Suc_eq_0_disj)
    with Inr Cons.IH [of "Suc i"] show ?thesis by simp
  qed
qed

lemma forEach_ok_list_all:
  assumes "\<And>x i. (f x i = Inr ()) = P x"
  shows "(forEach f xs i = Inr ()) = list_all P xs"
  by (simp add: forEach_ok_iff assms list_all_length)

lemma single_ok_iff:
  "(validateSingleNotationCondition um c texts path = Inr ()) = condition_accepted um texts c"
  by (auto simp: validateSingleNotationCondition_def condition_accepted_def)

lemma group_ok_iff:
  "(validate_group um texts path g i = Inr ())
   = (nonempty_array (conditions g)
      \<and> list_all (condition_accepted um texts) (array_items (conditions g)))"
  by (cases "conditions g")
     (simp_all add: validate_group_def Let_def
        forEach_ok_list_all [where P = "condition_accepted um texts"] single_ok_iff)

lemma groups_ok_iff:
  "(validateTestCriteriaGroups um gs texts path = Inr ())
   = (nonempty_array gs
      \<and> list_all (\<lambda>g. nonempty_array (conditions g)
                      \<and> list_all (condition_accepted um texts) (array_items (conditions g)))
           (array_items gs))"
  by (cases gs)
     (simp_all add: validateTestCriteriaGroups_def
        forEach_ok_list_all [where P = "\<lambda>g. nonempty_array (conditions g)
                      \<and> list_all (condition_accepted um texts) (array_items (conditions g))"]
        group_ok_iff)

lemma branch_ok_iff:
  "(validate_branch um b texts path = Inr ())
   = (branch_shaped b \<and> list_all (condition_accepted um texts) (branch_conditions b))"
  by (cases b)
     (auto simp: validate_branch_def branch_shaped_def branch_conditions_def groups_ok_iff
        list_all_iff)

lemma criteria_ok_iff:
  "(validateTestPassingCriteriaInput um c ns = Inr ())
   = ((pass_criteria c \<noteq> None \<or> fail_criteria c \<noteq> None) \<and> tree_shaped c
      \<and> list_all (condition_accepted um (map n_notation_text ns)) (all_conditions c))"
proof -
  let ?T = "map n_notation_text ns"
  let ?P = "validate_branch um (pass_criteria c) ?T
              (js ''test_passing_criteria.pass_criteria.test_criteria_groups'')"
  let ?F = "validate_branch um (fail_criteria c) ?T
              (js ''test_passing_criteria.fail_criteria.test_criteria_groups'')"
  have res: "(validateTestPassingCriteriaInput um c ns = Inr ())
             = ((pass_criteria c \<noteq> None \<or> fail_criteria c \<noteq> None)
                \<and> ?P = Inr () \<and> ?F = Inr ())"
    by (cases ?P) (auto simp: validateTestPassingCriteriaInput_def Let_def)
  show ?thesis
    unfolding res branch_ok_iff
    by (auto simp: tree_shaped_def all_conditions_def)
qed

lemma bad_mark_nonneg: "v \<noteq> Num NaN \<Longrightarrow> (\<not> bad_mark v) = nonneg_number v"
proof (cases v)
  case (Num n)
  assume "v \<noteq> Num NaN"
  with Num show ?thesis by (cases n) auto
qed simp_all

lemma accepted_amended:
  "mark c \<noteq> Num NaN \<Longrightarrow> condition_accepted um texts c = amended_ok um texts c"
  by (auto simp: condition_accepted_def amended_ok_def claimed_ok_def in_enum_def
      nonblank_string_def bad_mark_nonneg)

lemma missing_neq_unknown: "notation_missing_error p \<noteq> notation_unknown_error q v"
  by (simp add: notation_missing_error_def notation_unknown_error_def js_def)

lemma maps_ascii_ascii_upper: "maps_ascii ascii_upper"
  by (simp add: maps_ascii_def)

lemma um_ascii:
  assumes "maps_ascii um" and "c < 128"
  shows "um c = ascii_upper c"
  using assms by (simp add: maps_ascii_def)

lemma toUpperCase_ascii:
  assumes "maps_ascii um" and "list_all (\<lambda>c. c < 128) s"
  shows "toUpperCase um s = toUpperCase ascii_upper s"
proof -
  from assms have "map um s = map ascii_upper s"
    by (simp add: maps_ascii_def list_all_iff)
  then show ?thesis by (simp only: toUpperCase_def)
qed



lemmas eval_simps = validateTestPassingCriteriaInput_def validate_branch_def
  validateTestCriteriaGroups_def validate_group_def validateSingleNotationCondition_def
  validCriteriaType_def validComparisonOperator_def includes_str_def
  toUpperCase_def ascii_upper_def js_def trim_def is_space_def

lemma upper_MARK: "maps_ascii um \<Longrightarrow> toUpperCase um (js ''MARK'') = js ''MARK''"
  by (subst toUpperCase_ascii) (simp_all add: js_def toUpperCase_def ascii_upper_def)

lemma upper_AVERAGE: "maps_ascii um \<Longrightarrow> toUpperCase um (js ''AVERAGE'') = js ''AVERAGE''"
  by (subst toUpperCase_ascii) (simp_all add: js_def toUpperCase_def ascii_upper_def)

lemma upper_GTE: "maps_ascii um \<Longrightarrow> toUpperCase um (js ''GTE'') = js ''GTE''"
  by (subst toUpperCase_ascii) (simp_all add: js_def toUpperCase_def ascii_upper_def)

text \<open>
  A tree whose only condition is \<^verbatim>\<open>AVERAGE GTE -1\<close>, under any upper-case mapping that
  agrees with Unicode's on ASCII: the enum fields are valid, there is no \<^verbatim>\<open>MARK\<close>
  condition, and the validator throws the error of the mark.
\<close>

lemma negative_mark_rejected:
  assumes "maps_ascii um"
  shows "tree_shaped
     \<lparr>pass_criteria = Some \<lparr>test_criteria_groups = IsArray [\<lparr>conditions = IsArray
        [\<lparr>criteria_type = Str (js ''AVERAGE''), comparison_operator = Str (js ''GTE''),
          mark = Num (Fin (-1)), notation_text = Undefined\<rparr>]\<rparr>]\<rparr>,
      fail_criteria = None\<rparr>
   \<and> list_all (claimed_ok um [Str (js ''A'')])
       (all_conditions
          \<lparr>pass_criteria = Some \<lparr>test_criteria_groups = IsArray [\<lparr>conditions = IsArray
             [\<lparr>criteria_type = Str (js ''AVERAGE''), comparison_operator = Str (js ''GTE''),
               mark = Num (Fin (-1)), notation_text = Undefined\<rparr>]\<rparr>]\<rparr>,
           fail_criteria = None\<rparr>)
   \<and> validateTestPassingCriteriaInput um
       \<lparr>pass_criteria = Some \<lparr>test_criteria_groups = IsArray [\<lparr>conditions = IsArray
          [\<lparr>criteria_type = Str (js ''AVERAGE''), comparison_operator = Str (js ''GTE''),
            mark = Num (Fin (-1)), notation_text = Undefined\<rparr>]\<rparr>]\<rparr>,
        fail_criteria = None\<rparr>
       [\<lparr>n_notation_text = Str (js ''A''), n_max_points = Num (Fin 20)\<rparr>]
     = Inl (mark_error
              (js ''test_passing_criteria.pass_criteria.test_criteria_groups[0].conditions[0]''))"
  by (simp add: eval_simps um_ascii [OF assms] tree_shaped_def branch_shaped_def
      all_conditions_def branch_conditions_def claimed_ok_def in_enum_def)

subsection \<open>Validation of a criteria tree\<close>

text \<open>
  The statement that validation succeeds exactly when the enum fields are valid and the
  notation texts of the \<^verbatim>\<open>MARK\<close> conditions are in the notation set fails on a tree whose
  only condition is \<^verbatim>\<open>AVERAGE GTE -1\<close>: nothing in the statement speaks of the mark, and
  the validator rejects the condition for its negative mark. (The strings of the example
  are ASCII, on which every upper-case mapping that agrees with Unicode's is
  \<open>ascii_upper\<close>.)
\<close>

theorem C1_counterexample:
  "tree_shaped
     \<lparr>pass_criteria = Some \<lparr>test_criteria_groups = IsArray [\<lparr>conditions = IsArray
        [\<lparr>criteria_type = Str (js ''AVERAGE''), comparison_operator = Str (js ''GTE''),
          mark = Num (Fin (-1)), notation_text = Undefined\<rparr>]\<rparr>]\<rparr>,
      fail_criteria = None\<rparr>
   \<and> list_all (claimed_ok ascii_upper [Str (js ''A'')])
       (all_conditions
          \<lparr>pass_criteria = Some \<lparr>test_criteria_groups = IsArray [\<lparr>conditions = IsArray
             [\<lparr>criteria_type = Str (js ''AVERAGE''), comparison_operator = Str (js ''GTE''),
               mark = Num (Fin (-1)), notation_text = Undefined\<rparr>]\<rparr>]\<rparr>,
           fail_criteria = None\<rparr>)
   \<and> validateTestPassingCriteriaInput ascii_upper
       \<lparr>pass_criteria = Some \<lparr>test_criteria_groups = IsArray [\<lparr>conditions = IsArray
          [\<lparr>criteria_type = Str (js ''AVERAGE''), comparison_operator = Str (js ''GTE''),
            mark = Num (Fin (-1)), notation_text = Undefined\<rparr>]\<rparr>]\<rparr>,
        fail_criteria = None\<rparr>
       [\<lparr>n_notation_text = Str (js ''A''), n_max_points = Num (Fin 20)\<rparr>]
     = Inl (mark_error
              (js ''test_passing_criteria.pass_criteria.test_criteria_groups[0].conditions[0]''))"
  using negative_mark_rejected [OF maps_ascii_ascii_upper] .

text \<open>
  C1 (amended): for every criteria tree with at least one branch present, in which each
  present branch has at least one group and each group at least one condition, and in
  which no mark is \<^verbatim>\<open>NaN\<close>, \<^verbatim>\<open>validateTestPassingCriteriaInput\<close> succeeds if and only if
  every condition has a \<^verbatim>\<open>criteria_type\<close> and a \<^verbatim>\<open>comparison_operator\<close> within their
  enum sets (compared in upper case), a mark that is a number and at least 0, and, when
  it is a \<^verbatim>\<open>MARK\<close> condition, a \<^verbatim>\<open>notation_text\<close> that is a string with more than white
  space in it and a member of the notation set. A \<^verbatim>\<open>MARK\<close> condition that passes the
  common checks is rejected with the "required" message when its text is missing or
  blank and with the "does not match" message when its text is not in the set, and the
  two messages are never equal. This holds whatever the upper-case mapping is.
\<close>

theorem C1_validation_iff:
  assumes "pass_criteria c \<noteq> None \<or> fail_criteria c \<noteq> None"
    and "tree_shaped c"
    and "\<forall>x \<in> set (all_conditions c). mark x \<noteq> Num NaN"
  shows "((validateTestPassingCriteriaInput um c ns = Inr ())
          = list_all (amended_ok um (map n_notation_text ns)) (all_conditions c))
       \<and> (\<forall>x texts path.
            in_enum um validCriteriaType (criteria_type x) \<and>
            in_enum um validComparisonOperator (comparison_operator x) \<and>
            \<not> bad_mark (mark x) \<and> is_MARK um (criteria_type x) \<longrightarrow>
            validateSingleNotationCondition um x texts path
            = (if blank_text (notation_text x) then Inl (notation_missing_error path)
               else if notation_text x \<notin> set texts
               then Inl (notation_unknown_error path (notation_text x))
               else Inr ()))
       \<and> (\<forall>p q v. notation_missing_error p \<noteq> notation_unknown_error q v)"
proof -
  have "list_all (condition_accepted um (map n_notation_text ns)) (all_conditions c)
        = list_all (amended_ok um (map n_notation_text ns)) (all_conditions c)"
    using assms(3) by (auto simp: list_all_iff accepted_amended)
  then have "(validateTestPassingCriteriaInput um c ns = Inr ())
          = list_all (amended_ok um (map n_notation_text ns)) (all_conditions c)"
    using assms(1,2) by (simp add: criteria_ok_iff)
  moreover have "\<forall>x texts path.
            in_enum um validCriteriaType (criteria_type x) \<and>
            in_enum um validComparisonOperator (comparison_operator x) \<and>
            \<not> bad_mark (mark x) \<and> is_MARK um (criteria_type x) \<longrightarrow>
            validateSingleNotationCondition um x texts path
            = (if blank_text (notation_text x) then Inl (notation_missing_error path)
               else if notation_text x \<notin> set texts
               then Inl (notation_unknown_error path (notation_text x))
               else Inr ())"
    by (simp add: validateSingleNotationCondition_def in_enum_def)
  ultimately show ?thesis
    using missing_neq_unknown by blast
qed

text \<open>
  An instance: one \<^verbatim>\<open>mark GTE 10\<close> condition on notation \<open>A\<close> is accepted; a text that
  is a no-break space is rejected as missing even when the notation set has it, and an
  unknown text is rejected with the other message.
\<close>

theorem C1_validation_iff_witness:
  "validateTestPassingCriteriaInput ascii_upper
     \<lparr>pass_criteria = Some \<lparr>test_criteria_groups = IsArray [\<lparr>conditions = IsArray
        [\<lparr>criteria_type = Str (js ''mark''), comparison_operator = Str (js ''GTE''),
          mark = Num (Fin 10), notation_text = Str (js ''A'')\<rparr>]\<rparr>]\<rparr>,
      fail_criteria = None\<rparr>
     [\<lparr>n_notation_text = Str (js ''A''), n_max_points = Num (Fin 20)\<rparr>] = Inr ()
   \<and> validateSingleNotationCondition ascii_upper
       \<lparr>criteria_type = Str (js ''MARK''), comparison_operator = Str (js ''LT''),
        mark = Num (Fin 5), notation_text = Str [0xA0]\<rparr> [Str [0xA0]] (js ''p'')
     = Inl (notation_missing_error (js ''p''))
   \<and> validateSingleNotationCondition ascii_upper
       \<lparr>criteria_type = Str (js ''MARK''), comparison_operator = Str (js ''LT''),
        mark = Num (Fin 5), notation_text = Str (js ''B'')\<rparr> [Str (js ''A'')] (js ''p'')
     = Inl (notation_unknown_error (js ''p'') (Str (js ''B'')))"
  using C1_validation_iff
    [of "\<lparr>pass_criteria = Some \<lparr>test_criteria_groups = IsArray [\<lparr>conditions = IsArray
        [\<lparr>criteria_type = Str (js ''mark''), comparison_operator = Str (js ''GTE''),
          mark = Num (Fin 10), notation_text = Str (js ''A'')\<rparr>]\<rparr>]\<rparr>,
      fail_criteria = None\<rparr>" ascii_upper
        "[\<lparr>n_notation_text = Str (js ''A''), n_max_points = Num (Fin 20)\<rparr>]"]
  by (simp add: eval_simps tree_shaped_def branch_shaped_def all_conditions_def
      branch_conditions_def claimed_ok_def amended_ok_def in_enum_def nonblank_string_def)

subsection \<open>Letter case\<close>



subsection \<open>The mark of a condition\<close>

text \<open>
  C6: a condition is rejected unless its \<^verbatim>\<open>criteria_type\<close> and \<^verbatim>\<open>comparison_operator\<close>
  are in their enum sets and its mark is a non-negative number. The test of the code is
  \<^verbatim>\<open>typeof condition.mark !== 'number' || condition.mark < 0\<close>, which \<^verbatim>\<open>NaN\<close> passes
  (the checks of \<^verbatim>\<open>weight\<close> and \<^verbatim>\<open>max_points\<close> in the same file test \<^verbatim>\<open>isNaN\<close>): the
  condition \<^verbatim>\<open>AVERAGE GTE NaN\<close> is accepted although its mark is not a non-negative
  number.
\<close>

theorem C6_nan_mark_accepted:
  assumes "maps_ascii um"
  shows "validateSingleNotationCondition um
     \<lparr>criteria_type = Str (js ''AVERAGE''), comparison_operator = Str (js ''GTE''),
      mark = Num NaN, notation_text = Undefined\<rparr> [Str (js ''A'')]
     (js ''test_passing_criteria.pass_criteria.test_criteria_groups[0].conditions[0]'')
     = Inr ()
   \<and> \<not> nonneg_number (Num NaN)"
proof -
  have "js ''AVERAGE'' \<noteq> js ''MARK''" by (simp add: js_def)
  then show ?thesis
    by (simp add: validateSingleNotationCondition_def validCriteriaType_def
        validComparisonOperator_def includes_str_def upper_AVERAGE [OF assms]
        upper_GTE [OF assms])
qed

text \<open>The same with the upper-case mapping written out on ASCII.\<close>

theorem C6_nan_mark_accepted_witness:
  "validateSingleNotationCondition ascii_upper
     \<lparr>criteria_type = Str (js ''AVERAGE''), comparison_operator = Str (js ''GTE''),
      mark = Num NaN, notation_text = Undefined\<rparr> [Str (js ''A'')]
     (js ''test_passing_criteria.pass_criteria.test_criteria_groups[0].conditions[0]'')
     = Inr ()
   \<and> \<not> nonneg_number (Num NaN)"
  using C6_nan_mark_accepted [OF maps_ascii_ascii_upper] .

section \<open>Properties of the task payloads\<close>

lemma copy_field_keys: "map fst (copy_field k v) = (if supplied v then [k] else [])"
  by (simp add: copy_field_def)

lemma copy_upper_field_keys:
  "copy_upper_field um k v = Inr q \<Longrightarrow> map fst q = (if supplied v then [k] else [])"
  by (auto simp: copy_upper_field_def split: if_splits sum.splits)

lemma update_payload_parts:
  assumes "GetUpdateTaskPayload um env taskInput userId = Inr p"
  obtains pt ps where
    "copy_upper_field um ''task_type'' (taskInput ''task_type'') = Inr pt"
    "copy_upper_field um ''task_status'' (taskInput ''task_status'') = Inr ps"
    "p = copy_field ''user'' (taskInput ''user'')
         @ copy_field ''title'' (taskInput ''title'')
         @ copy_field ''description'' (taskInput ''description'')
         @ pt @ ps
         @ copy_field ''due_date'' (taskInput ''due_date'')
         @ [(''updated_by'', userId)]"
  using assms by (auto simp: GetUpdateTaskPayload_def split: option.splits sum.splits)

lemma update_payload_keys:
  assumes "GetUpdateTaskPayload um env taskInput userId = Inr p"
  shows "map fst p = filter (\<lambda>k. supplied (taskInput k)) update_fields @ [''updated_by'']"
proof -
  from assms obtain pt ps where
    pt: "copy_upper_field um ''task_type'' (taskInput ''task_type'') = Inr pt" and
    ps: "copy_upper_field um ''task_status'' (taskInput ''task_status'') = Inr ps" and
    p: "p = copy_field ''user'' (taskInput ''user'')
               @ copy_field ''title'' (taskInput ''title'')
               @ copy_field ''description'' (taskInput ''description'')
               @ pt @ ps
               @ copy_field ''due_date'' (taskInput ''due_date'')
               @ [(''updated_by'', userId)]"
    by (rule update_payload_parts)
  show ?thesis
    unfolding p update_fields_def
    by (simp add: copy_field_keys copy_upper_field_keys [OF pt] copy_upper_field_keys [OF ps])
qed

lemma set_fields_other: "k \<notin> set (map fst p) \<Longrightarrow> set_fields doc p k = doc k"
  by (simp add: set_fields_def map_of_eq_None_iff [THEN iffD2])

subsection \<open>The update payload\<close>

text \<open>
  C8: the payload that \<^verbatim>\<open>GetUpdateTaskPayload\<close> produces has exactly the properties
  among \<^verbatim>\<open>user\<close>, \<^verbatim>\<open>title\<close>, \<^verbatim>\<open>description\<close>, \<^verbatim>\<open>task_type\<close>, \<^verbatim>\<open>task_status\<close> and
  \<^verbatim>\<open>due_date\<close> that the input supplies (neither \<^verbatim>\<open>undefined\<close> nor \<^verbatim>\<open>null\<close>), and
  \<^verbatim>\<open>updated_by\<close>; \<^verbatim>\<open>task_status\<close> is in the payload exactly when the input supplies
  it; and setting the payload on a stored task leaves every other field of the task as
  it was.
\<close>

theorem C8_update_payload_frame:
  assumes "GetUpdateTaskPayload um env taskInput userId = Inr p"
  shows "set (map fst p) = {k \<in> set update_fields. supplied (taskInput k)} \<union> {''updated_by''}
       \<and> ((''task_status'' \<in> set (map fst p)) = supplied (taskInput ''task_status''))
       \<and> (\<forall>k. \<not> (k \<in> set update_fields \<and> supplied (taskInput k)) \<and> k \<noteq> ''updated_by''
              \<longrightarrow> set_fields doc p k = doc k)"
proof -
  note keys = update_payload_keys [OF assms]
  have a: "set (map fst p) = {k \<in> set update_fields. supplied (taskInput k)} \<union> {''updated_by''}"
    unfolding keys by auto
  have b: "(''task_status'' \<in> set (map fst p)) = supplied (taskInput ''task_status'')"
    unfolding a by (simp add: update_fields_def)
  have c: "set_fields doc p k = doc k"
    if "\<not> (k \<in> set update_fields \<and> supplied (taskInput k)) \<and> k \<noteq> ''updated_by''" for k
    using that a by (intro set_fields_other) blast
  from a b c show ?thesis by blast
qed

subsection \<open>Completion fields and status\<close>

lemma PENDING_neq_COMPLETED: "js ''PENDING'' \<noteq> js ''COMPLETED''"
  by (simp add: js_def)

lemma create_completed_iff:
  "GetCreateTaskPayload um env taskInput userId = Inr p \<Longrightarrow> completed_iff (obj_of p)"
  by (auto simp: GetCreateTaskPayload_def completed_iff_def completed_fields_set_def
      obj_of_def supplied_def PENDING_neq_COMPLETED split: option.splits sum.splits)

lemma complete_completed_iff:
  assumes "ids_are_set env"
  shows "completed_iff doc \<Longrightarrow> completed_iff (apply_event um env doc (CompleteTask userId now))"
  using assms
  by (auto simp: GetTaskCompletionPayload_def completed_iff_def completed_fields_set_def
      set_fields_def ids_are_set_def supplied_def split: option.splits)

lemma update_status_value:
  assumes "GetUpdateTaskPayload um env taskInput userId = Inr p"
  shows "set_fields doc p ''task_status''
         = (case taskInput ''task_status'' of Str s \<Rightarrow> Str (toUpperCase um s)
            | _ \<Rightarrow> doc ''task_status'')"
proof -
  from assms obtain pt ps where
    pt: "copy_upper_field um ''task_type'' (taskInput ''task_type'') = Inr pt" and
    ps: "copy_upper_field um ''task_status'' (taskInput ''task_status'') = Inr ps" and
    p: "p = copy_field ''user'' (taskInput ''user'')
               @ copy_field ''title'' (taskInput ''title'')
               @ copy_field ''description'' (taskInput ''description'')
               @ pt @ ps
               @ copy_field ''due_date'' (taskInput ''due_date'')
               @ [(''updated_by'', userId)]"
    by (rule update_payload_parts)
  have 1: "map_of (copy_field k v) ''task_status'' = None" if "k \<noteq> ''task_status''" for k v
    using that by (simp add: copy_field_def)
  have 2: "map_of pt ''task_status'' = None"
    using pt by (auto simp: copy_upper_field_def split: if_splits sum.splits)
  have 3: "map_of ps ''task_status''
           = (case taskInput ''task_status'' of Str s \<Rightarrow> Some (Str (toUpperCase um s))
              | _ \<Rightarrow> None)"
    using ps by (cases "taskInput ''task_status''")
      (auto simp: copy_upper_field_def supplied_def split: if_splits)
  have "map_of p ''task_status''
        = (case taskInput ''task_status'' of Str s \<Rightarrow> Some (Str (toUpperCase um s))
           | _ \<Rightarrow> None)"
    unfolding p by (simp add: map_add_def 1 2 3 split: jsval.splits)
  then show ?thesis
    by (simp add: set_fields_def split: jsval.splits)
qed

lemma update_completed_iff:
  assumes "completed_iff doc" and "status_kept um doc (UpdateTask taskInput userId)"
  shows "completed_iff (apply_event um env doc (UpdateTask taskInput userId))"
proof (cases "GetUpdateTaskPayload um env taskInput userId")
  case (Inl e)
  with assms show ?thesis by simp
next
  case (Inr p)
  have keys: "set (map fst p) \<subseteq> set update_fields \<union> {''updated_by''}"
    unfolding update_payload_keys [OF Inr] by auto
  have by_: "set_fields doc p ''completed_by'' = doc ''completed_by''"
    using keys by (intro set_fields_other) (auto simp: update_fields_def)
  have at: "set_fields doc p ''completed_at'' = doc ''completed_at''"
    using keys by (intro set_fields_other) (auto simp: update_fields_def)
  have st: "(set_fields doc p ''task_status'' = Str (js ''COMPLETED''))
            = (doc ''task_status'' = Str (js ''COMPLETED''))"
    using assms(2) by (simp add: update_status_value [OF Inr] split: jsval.splits)
  from assms(1) show ?thesis
    by (simp add: Inr completed_iff_def completed_fields_set_def by_ at st)
qed

lemma event_completed_iff:
  assumes "ids_are_set env" and "completed_iff doc" and "status_kept um doc ev"
  shows "completed_iff (apply_event um env doc ev)"
proof (cases ev)
  case (UpdateTask taskInput userId)
  with assms update_completed_iff show ?thesis by blast
next
  case (CompleteTask userId now)
  with assms complete_completed_iff show ?thesis by blast
qed

lemma run_completed_iff:
  assumes "ids_are_set env"
  shows "completed_iff doc \<Longrightarrow> all_status_kept um env doc evs
         \<Longrightarrow> completed_iff (run_events um env doc evs)"
proof (induction evs arbitrary: doc)
  case Nil
  then show ?case by simp
next
  case (Cons ev evs)
  from Cons.prems have "completed_iff (apply_event um env doc ev)"
    using event_completed_iff [OF assms] by simp
  with Cons show ?case by simp
qed

text \<open>
  C5 (amended): in every task state reached from a task created by the
  \<^verbatim>\<open>CreateTask\<close> payload through task completions and through updates that do not move
  the task into or out of \<^verbatim>\<open>COMPLETED\<close> (the \<^verbatim>\<open>task_status\<close> they carry, if any, is
  \<^verbatim>\<open>COMPLETED\<close> exactly when the stored status is), \<^verbatim>\<open>completed_by\<close> and
  \<^verbatim>\<open>completed_at\<close> are set if and only if the status is \<^verbatim>\<open>COMPLETED\<close>, provided the id
  validator accepts no \<^verbatim>\<open>undefined\<close> or \<^verbatim>\<open>null\<close> user id.
\<close>

theorem C5_completed_iff:
  assumes "ids_are_set env"
    and "GetCreateTaskPayload um env taskInput userId = Inr p"
    and "all_status_kept um env (obj_of p) evs"
  shows "completed_iff (run_events um env (obj_of p) evs)"
  using run_completed_iff [OF assms(1) create_completed_iff [OF assms(2)] assms(3)] .

lemmas task_simps = GetCreateTaskPayload_def GetUpdateTaskPayload_def
  GetTaskCompletionPayload_def validate_task_args_def example_env_def example_id_def
  example_test_id_def example_task_id_def
  example_create_input_def example_created_def example_update_input_def obj_of_def
  copy_field_def copy_upper_field_def supplied_def set_fields_def toUpperCase_def
  ascii_upper_def js_def completed_iff_def completed_fields_set_def

lemma example_create:
  "GetCreateTaskPayload ascii_upper example_env example_create_input example_id
   = Inr example_created"
  by (simp add: task_simps)

lemma example_ids_are_set: "ids_are_set example_env"
  by (auto simp: ids_are_set_def example_env_def supplied_def split: jsval.splits)

text \<open>
  An update that carries \<^verbatim>\<open>task_status: 'COMPLETED'\<close>, applied to a task just created,
  under any upper-case mapping that agrees with Unicode's on ASCII.
\<close>

lemma update_to_completed:
  assumes "maps_ascii um"
  shows "GetCreateTaskPayload um example_env example_create_input example_id
     = Inr example_created
   \<and> GetUpdateTaskPayload um example_env (example_update_input ''COMPLETED'')
       example_id
     = Inr [(''user'', example_id), (''title'', Str (js ''Enter marks'')),
            (''description'', Str (js ''Marks of the oral test'')),
            (''task_type'', Str (js ''ENTER_MARKS'')),
            (''task_status'', Str (js ''COMPLETED'')), (''updated_by'', example_id)]
   \<and> run_events um example_env (obj_of example_created)
        [UpdateTask (example_update_input ''COMPLETED'') example_id] ''task_status''
      = Str (js ''COMPLETED'')
   \<and> run_events um example_env (obj_of example_created)
        [UpdateTask (example_update_input ''COMPLETED'') example_id] ''completed_by''
      = Undefined
   \<and> \<not> completed_iff (run_events um example_env (obj_of example_created)
        [UpdateTask (example_update_input ''COMPLETED'') example_id])"
  by (simp add: task_simps um_ascii [OF assms])

text \<open>
  The statement for every reachable state fails: an update whose input carries
  \<^verbatim>\<open>task_status: 'COMPLETED'\<close>, applied to a task just created, gives a task whose status
  is \<^verbatim>\<open>COMPLETED\<close> and whose \<^verbatim>\<open>completed_by\<close> is not set. The update payload copies
  the status and has no completion field.
\<close>

theorem C5_counterexample:
  "GetCreateTaskPayload ascii_upper example_env example_create_input example_id
     = Inr example_created
   \<and> GetUpdateTaskPayload ascii_upper example_env (example_update_input ''COMPLETED'')
       example_id
     = Inr [(''user'', example_id), (''title'', Str (js ''Enter marks'')),
            (''description'', Str (js ''Marks of the oral test'')),
            (''task_type'', Str (js ''ENTER_MARKS'')),
            (''task_status'', Str (js ''COMPLETED'')), (''updated_by'', example_id)]
   \<and> run_events ascii_upper example_env (obj_of example_created)
        [UpdateTask (example_update_input ''COMPLETED'') example_id] ''task_status''
      = Str (js ''COMPLETED'')
   \<and> run_events ascii_upper example_env (obj_of example_created)
        [UpdateTask (example_update_input ''COMPLETED'') example_id] ''completed_by''
      = Undefined
   \<and> \<not> completed_iff (run_events ascii_upper example_env (obj_of example_created)
        [UpdateTask (example_update_input ''COMPLETED'') example_id])"
  using update_to_completed [OF maps_ascii_ascii_upper] .

text \<open>
  An instance: a task is created, updated to \<^verbatim>\<open>in_progress\<close> and then completed.
\<close>

theorem C5_completed_iff_witness:
  "ids_are_set example_env
   \<and> GetCreateTaskPayload ascii_upper example_env example_create_input example_id
       = Inr example_created
   \<and> all_status_kept ascii_upper example_env (obj_of example_created)
        [UpdateTask (example_update_input ''in_progress'') example_id,
         CompleteTask example_id 1700000000000]
   \<and> run_events ascii_upper example_env (obj_of example_created)
        [UpdateTask (example_update_input ''in_progress'') example_id,
         CompleteTask example_id 1700000000000] ''task_status''
      = Str (js ''COMPLETED'')
   \<and> completed_iff (run_events ascii_upper example_env (obj_of example_created)
        [UpdateTask (example_update_input ''in_progress'') example_id,
         CompleteTask example_id 1700000000000])"
proof -
  have k: "all_status_kept ascii_upper example_env (obj_of example_created)
        [UpdateTask (example_update_input ''in_progress'') example_id,
         CompleteTask example_id 1700000000000]"
    by (simp add: task_simps)
  have s: "run_events ascii_upper example_env (obj_of example_created)
        [UpdateTask (example_update_input ''in_progress'') example_id,
         CompleteTask example_id 1700000000000] ''task_status''
      = Str (js ''COMPLETED'')"
    by (simp add: task_simps)
  from C5_completed_iff [OF example_ids_are_set example_create k]
       example_ids_are_set example_create k s
  show ?thesis by blast
qed

text \<open>
  An instance: an update of the title and the task type, with a \<^verbatim>\<open>null\<close> due date,
  leaves the status of the stored task at \<^verbatim>\<open>PENDING\<close>.
\<close>

theorem C8_update_payload_frame_witness:
  "GetUpdateTaskPayload ascii_upper example_env
     (obj_of [(''title'', Str (js ''Second correction'')),
              (''task_type'', Str (js ''enter_marks'')), (''due_date'', Null)]) example_id
   = Inr [(''title'', Str (js ''Second correction'')),
          (''task_type'', Str (js ''ENTER_MARKS'')), (''updated_by'', example_id)]
   \<and> ''task_status'' \<notin> set (map fst [(''title'', Str (js ''Second correction'')),
          (''task_type'', Str (js ''ENTER_MARKS'')), (''updated_by'', example_id)])
   \<and> set_fields (obj_of example_created)
        [(''title'', Str (js ''Second correction'')),
         (''task_type'', Str (js ''ENTER_MARKS'')), (''updated_by'', example_id)]
        ''task_status''
      = Str (js ''PENDING'')"
proof -
  have p: "GetUpdateTaskPayload ascii_upper example_env
     (obj_of [(''title'', Str (js ''Second correction'')),
              (''task_type'', Str (js ''enter_marks'')), (''due_date'', Null)]) example_id
   = Inr [(''title'', Str (js ''Second correction'')),
          (''task_type'', Str (js ''ENTER_MARKS'')), (''updated_by'', example_id)]"
    by (simp add: task_simps)
  from C8_update_payload_frame [OF p, of "obj_of example_created"] p show ?thesis
    by (simp add: task_simps update_fields_def)
qed

subsection \<open>The validation payload\<close>

text \<open>
  C4: the payload of the \<^verbatim>\<open>ValidateMarks\<close> transition sets the status of the result to
  \<^verbatim>\<open>VALIDATED\<close> and sets its \<^verbatim>\<open>mark_validated_date\<close>. The payload that
  \<^verbatim>\<open>GetStudentTestResultValidationPayload\<close> builds sets \<^verbatim>\<open>marks_validated_date\<close>, which
  is not a field of \<^verbatim>\<open>StudentTestResult\<close>; \<^verbatim>\<open>mark_validated_date\<close> is not in it.
\<close>

theorem C4_validation_payload_field:
  "GetStudentTestResultValidationPayload example_env example_id 1700000000000
   = Inr [(''student_test_result_status'', Str (js ''VALIDATED'')),
          (''marks_validated_date'', Num (Fin 1700000000000)),
          (''updated_by'', example_id)]
   \<and> map_of [(''student_test_result_status'', Str (js ''VALIDATED'')),
          (''marks_validated_date'', Num (Fin 1700000000000)),
          (''updated_by'', example_id)] ''mark_validated_date'' = None
   \<and> ''mark_validated_date'' \<in> set StudentTestResult_fields
   \<and> ''marks_validated_date'' \<notin> set StudentTestResult_fields"
  by (simp add: GetStudentTestResultValidationPayload_def example_env_def example_id_def
      js_def StudentTestResult_fields_def)

subsection \<open>Deleting a task\<close>

lemma find_SomeD: "find P xs = Some x \<Longrightarrow> x \<in> set xs \<and> P x"
  by (induction xs) (simp_all split: if_splits)

lemma find_first_unique:
  assumes "t \<in> set xs" and "P t" and "\<forall>u \<in> set xs. P u \<longrightarrow> Q u \<longrightarrow> u = t"
    and "\<forall>u. P u \<longrightarrow> Q u"
  shows "find P xs = Some t"
proof (cases "find P xs")
  case None
  then have "\<not> (\<exists>x. x \<in> set xs \<and> P x)" by (rule find_None_iff [THEN iffD1])
  with assms(1,2) show ?thesis by blast
next
  case (Some u)
  from find_SomeD [OF Some] have "u \<in> set xs" and "P u" by blast+
  with assms(3,4) have "u = t" by blast
  with Some show ?thesis by (simp only:)
qed

lemma findOne_found:
  assumes "t \<in> set tasks" and "t ''_id'' = taskId"
    and "t ''task_status'' \<noteq> Str (js ''DELETED'')"
    and "\<forall>u \<in> set tasks. u ''_id'' = taskId \<longrightarrow> u = t"
  shows "findOne_not_deleted tasks taskId = Some t"
  unfolding findOne_not_deleted_def
proof (rule find_first_unique [where Q = "\<lambda>u. u ''_id'' = taskId"])
  show "t \<in> set tasks" by (rule assms(1))
  show "t ''_id'' = taskId \<and> t ''task_status'' \<noteq> Str (js ''DELETED'')"
    using assms(2,3) by (rule conjI)
  show "\<forall>u\<in>set tasks. u ''_id'' = taskId \<and> u ''task_status'' \<noteq> Str (js ''DELETED'')
          \<longrightarrow> u ''_id'' = taskId \<longrightarrow> u = t"
    using assms(4) by blast
  show "\<forall>u. u ''_id'' = taskId \<and> u ''task_status'' \<noteq> Str (js ''DELETED'')
          \<longrightarrow> u ''_id'' = taskId"
    by blast
qed

lemma findOne_absent:
  assumes "\<forall>u \<in> set tasks. u ''_id'' = taskId \<longrightarrow> u ''task_status'' = Str (js ''DELETED'')"
  shows "findOne_not_deleted tasks taskId = None"
  unfolding findOne_not_deleted_def
  by (rule find_None_iff [THEN iffD2]) (use assms in blast)

lemma delete_payload_found:
  assumes "ValidateObjectId env taskId = None" and "ValidateObjectId env userId = None"
    and "findOne_not_deleted tasks taskId = Some t"
  shows "GetDeleteTaskPayload env tasks now taskId userId
         = Inr \<lparr>task = \<lparr>filter_doc = [(''_id'', In_ids [taskId])],
                        update_doc = Set_fields [(''task_status'', Str (js ''DELETED'')),
                                                 (''deleted_by'', userId),
                                                 (''deleted_at'', Num (Fin (real now)))]\<rparr>,
                test = \<lparr>filter_doc = [(''_id'', Is (t ''test''))],
                        update_doc = Pull_from ''tasks'' taskId\<rparr>\<rparr>"
proof -
  have "delete_task_try env tasks now taskId userId
      = Inr \<lparr>task = BuildDeletePayload [taskId] ''task_status'' now userId,
             test = BuildPullTaskFromTestPayload (t ''test'') taskId\<rparr>"
    using assms by (simp add: delete_task_try_def)
  then show ?thesis
    by (simp add: GetDeleteTaskPayload_def BuildDeletePayload_def
        BuildPullTaskFromTestPayload_def)
qed

lemma delete_payload_absent:
  assumes "ValidateObjectId env taskId = None" and "ValidateObjectId env userId = None"
    and "findOne_not_deleted tasks taskId = None"
  shows "GetDeleteTaskPayload env tasks now taskId userId
         = Inl (ApolloError (js ''Failed to build delete task payload: Task not found'')
                  ''GET_DELETE_TASK_PAYLOAD_FAILED'' [(''error'', js ''Task not found'')])"
proof -
  have "delete_task_try env tasks now taskId userId
      = Inl (ApolloError (js ''Task not found'') ''TASK_NOT_FOUND'' [])"
    using assms by (simp add: delete_task_try_def)
  then show ?thesis
    by (simp add: GetDeleteTaskPayload_def js_def)
qed

text \<open>
  C7: with valid ids, \<^verbatim>\<open>GetDeleteTaskPayload\<close> for a stored task whose status is not
  \<^verbatim>\<open>DELETED\<close> returns one pair of effects, the update that sets \<^verbatim>\<open>task_status\<close> to
  \<^verbatim>\<open>DELETED\<close> on that task and the \<^verbatim>\<open>$pull\<close> of the task id from the \<^verbatim>\<open>tasks\<close> of the
  test the task belongs to; for a task that is already \<^verbatim>\<open>DELETED\<close> (or is not stored)
  it throws an \<^verbatim>\<open>ApolloError\<close> with the code \<^verbatim>\<open>GET_DELETE_TASK_PAYLOAD_FAILED\<close> and
  returns no payload.
\<close>

theorem C7_delete_task:
  assumes "ValidateObjectId env taskId = None" and "ValidateObjectId env userId = None"
  shows "(t \<in> set tasks \<and> t ''_id'' = taskId \<and> t ''task_status'' \<noteq> Str (js ''DELETED'')
          \<and> (\<forall>u \<in> set tasks. u ''_id'' = taskId \<longrightarrow> u = t)
          \<longrightarrow> GetDeleteTaskPayload env tasks now taskId userId
              = Inr \<lparr>task = \<lparr>filter_doc = [(''_id'', In_ids [taskId])],
                             update_doc = Set_fields [(''task_status'', Str (js ''DELETED'')),
                                                      (''deleted_by'', userId),
                                                      (''deleted_at'', Num (Fin (real now)))]\<rparr>,
                     test = \<lparr>filter_doc = [(''_id'', Is (t ''test''))],
                             update_doc = Pull_from ''tasks'' taskId\<rparr>\<rparr>)
       \<and> ((\<forall>u \<in> set tasks. u ''_id'' = taskId \<longrightarrow> u ''task_status'' = Str (js ''DELETED''))
          \<longrightarrow> GetDeleteTaskPayload env tasks now taskId userId
              = Inl (ApolloError (js ''Failed to build delete task payload: Task not found'')
                       ''GET_DELETE_TASK_PAYLOAD_FAILED''
                       [(''error'', js ''Task not found'')]))"
proof (intro conjI impI)
  assume "t \<in> set tasks \<and> t ''_id'' = taskId \<and> t ''task_status'' \<noteq> Str (js ''DELETED'')
          \<and> (\<forall>u \<in> set tasks. u ''_id'' = taskId \<longrightarrow> u = t)"
  then have "findOne_not_deleted tasks taskId = Some t"
    using findOne_found [of t tasks taskId] by blast
  then show "GetDeleteTaskPayload env tasks now taskId userId
              = Inr \<lparr>task = \<lparr>filter_doc = [(''_id'', In_ids [taskId])],
                             update_doc = Set_fields [(''task_status'', Str (js ''DELETED'')),
                                                      (''deleted_by'', userId),
                                                      (''deleted_at'', Num (Fin (real now)))]\<rparr>,
                     test = \<lparr>filter_doc = [(''_id'', Is (t ''test''))],
                             update_doc = Pull_from ''tasks'' taskId\<rparr>\<rparr>"
    by (rule delete_payload_found [OF assms])
next
  assume "\<forall>u \<in> set tasks. u ''_id'' = taskId \<longrightarrow> u ''task_status'' = Str (js ''DELETED'')"
  then have "findOne_not_deleted tasks taskId = None"
    by (rule findOne_absent)
  then show "GetDeleteTaskPayload env tasks now taskId userId
              = Inl (ApolloError (js ''Failed to build delete task payload: Task not found'')
                       ''GET_DELETE_TASK_PAYLOAD_FAILED''
                       [(''error'', js ''Task not found'')])"
    by (rule delete_payload_absent [OF assms])
qed

text \<open>
  An instance: the payload for a stored pending task, and the error once the update of
  that payload has been set on the task.
\<close>

theorem C7_delete_task_witness:
  "GetDeleteTaskPayload example_env
     [obj_of ((''_id'', example_task_id) # example_created)]
     1700000000000 example_task_id example_id
   = Inr \<lparr>task = \<lparr>filter_doc = [(''_id'', In_ids [example_task_id])],
                  update_doc = Set_fields [(''task_status'', Str (js ''DELETED'')),
                                           (''deleted_by'', example_id),
                                           (''deleted_at'', Num (Fin 1700000000000))]\<rparr>,
          test = \<lparr>filter_doc = [(''_id'', Is example_test_id)],
                  update_doc = Pull_from ''tasks'' example_task_id\<rparr>\<rparr>
   \<and> GetDeleteTaskPayload example_env
     [set_fields (obj_of ((''_id'', example_task_id) # example_created))
        [(''task_status'', Str (js ''DELETED'')), (''deleted_by'', example_id),
         (''deleted_at'', Num (Fin 1700000000000))]]
     1700000000001 example_task_id example_id
   = Inl (ApolloError (js ''Failed to build delete task payload: Task not found'')
            ''GET_DELETE_TASK_PAYLOAD_FAILED'' [(''error'', js ''Task not found'')])"
proof -
  let ?t = "obj_of ((''_id'', example_task_id) # example_created)"
  let ?d = "set_fields ?t [(''task_status'', Str (js ''DELETED'')),
         (''deleted_by'', example_id), (''deleted_at'', Num (Fin 1700000000000))]"
  have v: "ValidateObjectId example_env example_task_id = None"
          "ValidateObjectId example_env example_id = None"
    by (simp_all add: example_env_def example_id_def example_task_id_def js_def)
  have t: "?t ''_id'' = example_task_id" "?t ''task_status'' \<noteq> Str (js ''DELETED'')"
          "?t ''test'' = example_test_id"
    by (simp_all add: obj_of_def example_created_def js_def)
  have d: "?d ''task_status'' = Str (js ''DELETED'')"
    by (simp add: set_fields_def)
  have a: "?t \<in> set [?t] \<and> ?t ''_id'' = example_task_id
          \<and> ?t ''task_status'' \<noteq> Str (js ''DELETED'')
          \<and> (\<forall>u \<in> set [?t]. u ''_id'' = example_task_id \<longrightarrow> u = ?t)"
    using t by simp
  have b: "\<forall>u \<in> set [?d]. u ''_id'' = example_task_id
             \<longrightarrow> u ''task_status'' = Str (js ''DELETED'')"
    using d by simp
  from C7_delete_task [OF v, of ?t "[?t]" 1700000000000, THEN conjunct1, THEN mp, OF a]
       C7_delete_task [OF v, of ?t "[?d]" 1700000000001, THEN conjunct2, THEN mp, OF b]
  show ?thesis by (simp only: t(3) of_nat_numeral)
qed

section \<open>Properties of the classification\<close>

text \<open>
  C3: when a test has both a \<^verbatim>\<open>pass_criteria\<close> and a \<^verbatim>\<open>fail_criteria\<close> branch and the
  marks and the average satisfy both, the outcome is \<^verbatim>\<open>FAIL\<close>: the failing branch is
  looked at first.
\<close>

theorem C3_fail_precedence:
  assumes "pass_branch = Some pb" and "fail_branch = Some fb"
    and "branch_satisfied marks average pb" and "branch_satisfied marks average fb"
  shows "classify pass_branch fail_branch marks average = FAIL"
  using assms by (simp add: classify_def)

text \<open>
  An instance: marks \<open>A = 3\<close>, \<open>B = 19\<close> with average 11 satisfy \<^verbatim>\<open>AVERAGE GTE 10\<close> and
  \<^verbatim>\<open>MARK A LT 5\<close>.
\<close>

theorem C3_fail_precedence_witness:
  "branch_satisfied
     [\<lparr>m_notation_text = js ''A'', m_mark = 3\<rparr>, \<lparr>m_notation_text = js ''B'', m_mark = 19\<rparr>] 11
     [[\<lparr>ec_criteria_type = AVERAGE, ec_comparison_operator = GTE, ec_mark = 10,
        ec_notation_text = []\<rparr>]]
   \<and> branch_satisfied
     [\<lparr>m_notation_text = js ''A'', m_mark = 3\<rparr>, \<lparr>m_notation_text = js ''B'', m_mark = 19\<rparr>] 11
     [[\<lparr>ec_criteria_type = MARK, ec_comparison_operator = LT, ec_mark = 5,
        ec_notation_text = js ''A''\<rparr>]]
   \<and> classify
     (Some [[\<lparr>ec_criteria_type = AVERAGE, ec_comparison_operator = GTE, ec_mark = 10,
        ec_notation_text = []\<rparr>]])
     (Some [[\<lparr>ec_criteria_type = MARK, ec_comparison_operator = LT, ec_mark = 5,
        ec_notation_text = js ''A''\<rparr>]])
     [\<lparr>m_notation_text = js ''A'', m_mark = 3\<rparr>, \<lparr>m_notation_text = js ''B'', m_mark = 19\<rparr>] 11
     = FAIL"
proof -
  have p: "branch_satisfied
     [\<lparr>m_notation_text = js ''A'', m_mark = 3\<rparr>, \<lparr>m_notation_text = js ''B'', m_mark = 19\<rparr>] 11
     [[\<lparr>ec_criteria_type = AVERAGE, ec_comparison_operator = GTE, ec_mark = 10,
        ec_notation_text = []\<rparr>]]"
    by (simp add: branch_satisfied_def group_satisfied_def condition_satisfied_def)
  have f: "branch_satisfied
     [\<lparr>m_notation_text = js ''A'', m_mark = 3\<rparr>, \<lparr>m_notation_text = js ''B'', m_mark = 19\<rparr>] 11
     [[\<lparr>ec_criteria_type = MARK, ec_comparison_operator = LT, ec_mark = 5,
        ec_notation_text = js ''A''\<rparr>]]"
    by (simp add: branch_satisfied_def group_satisfied_def condition_satisfied_def js_def)
  from C3_fail_precedence [OF refl refl p f] p f show ?thesis by simp
qed


section \<open>Properties of test input validation\<close>

lemma check_notations_ok:
  assumes "check_notations ns isUpdate = Inr ()"
  shows "ns = NoArray Undefined \<or> (\<exists>xs. ns = IsArray xs \<and> xs \<noteq> [])"
  using assms by (cases ns) (auto simp: check_notations_def split: if_splits)

lemma source_is_spec:
  assumes "check_notations (notations testInput) isUpdate = Inr ()"
  shows "or_else (notations testInput) existingNotations
         = notations_for_criteria testInput existingNotations"
  using check_notations_ok [OF assms]
  by (auto simp: or_else_def notations_for_criteria_def)

lemma earlier_checks_notations:
  assumes "earlier_checks l testInput evaluationType isUpdate = Inr ()"
  shows "check_notations (notations testInput) isUpdate = Inr ()"
  using assms by (auto simp: earlier_checks_def split: sum.splits)

lemma ValidateTestInput_earlier:
  "ValidateTestInput l testInput evaluationType existingNotations isUpdate
   = (case earlier_checks l testInput evaluationType isUpdate of
        Inl e \<Rightarrow> Inl e
      | Inr u \<Rightarrow> check_passing_criteria l testInput existingNotations)"
  by (simp add: ValidateTestInput_def earlier_checks_def split: sum.splits)

text \<open>
  C9: when the test input carries passing criteria and the checks before them pass,
  \<^verbatim>\<open>ValidateTestInput\<close> validates the criteria against the notations of the input when
  the input has notations and against the existing notations otherwise; when that source
  is not a non-empty array it throws the \<^verbatim>\<open>BAD_USER_INPUT\<close> error "no notations are
  available" and does not validate the criteria at all. The \<^verbatim>\<open>||\<close> of the code takes
  an empty array for present, but the check of the notations before it lets only a
  non-empty array through.
\<close>

theorem C9_notations_source:
  assumes "test_passing_criteria testInput = Some criteria"
    and "earlier_checks l testInput evaluationType isUpdate = Inr ()"
  shows "ValidateTestInput l testInput evaluationType existingNotations isUpdate
         = (case notations_for_criteria testInput existingNotations of
              IsArray xs \<Rightarrow>
                if xs = [] then Inl no_notations_error
                else validateTestPassingCriteriaInput (upper_mapping l) criteria xs
            | NoArray v \<Rightarrow> Inl no_notations_error)
       \<and> (notations testInput \<noteq> NoArray Undefined \<longrightarrow>
            (\<exists>xs. notations testInput = IsArray xs \<and> xs \<noteq> []
                  \<and> ValidateTestInput l testInput evaluationType existingNotations isUpdate
                    = validateTestPassingCriteriaInput (upper_mapping l) criteria xs))
       \<and> error_code no_notations_error = Some ''BAD_USER_INPUT''"
proof -
  note n = earlier_checks_notations [OF assms(2)]
  have eq: "ValidateTestInput l testInput evaluationType existingNotations isUpdate
         = (case notations_for_criteria testInput existingNotations of
              IsArray xs \<Rightarrow>
                if xs = [] then Inl no_notations_error
                else validateTestPassingCriteriaInput (upper_mapping l) criteria xs
            | NoArray v \<Rightarrow> Inl no_notations_error)"
    by (simp add: ValidateTestInput_earlier assms check_passing_criteria_def
        source_is_spec [OF n] split: js_array.splits)
  have sup: "\<exists>xs. notations testInput = IsArray xs \<and> xs \<noteq> []
                  \<and> ValidateTestInput l testInput evaluationType existingNotations isUpdate
                    = validateTestPassingCriteriaInput (upper_mapping l) criteria xs"
    if "notations testInput \<noteq> NoArray Undefined"
  proof -
    from check_notations_ok [OF n] that obtain xs where
      xs: "notations testInput = IsArray xs" "xs \<noteq> []" by blast
    then show ?thesis
      unfolding eq by (simp add: notations_for_criteria_def)
  qed
  have "error_code no_notations_error = Some ''BAD_USER_INPUT''"
    by (simp add: no_notations_error_def)
  with eq sup show ?thesis by blast
qed
lemmas input_simps = earlier_checks_def validationRules_def check_notations_def
  check_notation_def check_retake_def check_test_type_def obj_of_def example_update_def
  example_criteria_def example_notation_def example_lib_def Let_def

lemma example_earlier:
  "earlier_checks example_lib (example_update (NoArray Undefined) ''A'') Undefined True = Inr ()"
  by (simp add: input_simps)

lemma example_earlier_new:
  "earlier_checks example_lib (example_update (IsArray [example_notation ''B'']) ''B'')
     Undefined True = Inr ()"
  by (simp add: input_simps js_def trim_def is_space_def)

lemma example_valid:
  "validateTestPassingCriteriaInput ascii_upper (example_criteria ''A'') [example_notation ''A'']
   = Inr ()"
  "validateTestPassingCriteriaInput ascii_upper (example_criteria ''B'') [example_notation ''B'']
   = Inr ()"
  by (simp_all add: example_criteria_def example_notation_def
      validateTestPassingCriteriaInput_def validate_branch_def
      validateTestCriteriaGroups_def validate_group_def validateSingleNotationCondition_def
      validCriteriaType_def validComparisonOperator_def includes_str_def
      toUpperCase_def ascii_upper_def js_def trim_def is_space_def)

text \<open>
  Instances, all partial updates that carry criteria: without notations the criteria on
  \<open>A\<close> are validated against the existing notation \<open>A\<close>; with a new notation \<open>B\<close>
  the criteria on \<open>B\<close> are validated against it and not against the existing \<open>A\<close>;
  with no notations at all the input is rejected.
\<close>

theorem C9_notations_source_witness:
  "ValidateTestInput example_lib (example_update (NoArray Undefined) ''A'') Undefined
     (IsArray [example_notation ''A'']) True = Inr ()
   \<and> ValidateTestInput example_lib (example_update (IsArray [example_notation ''B'']) ''B'')
       Undefined (IsArray [example_notation ''A'']) True = Inr ()
   \<and> ValidateTestInput example_lib (example_update (NoArray Undefined) ''A'') Undefined
       (IsArray []) True = Inl no_notations_error
   \<and> ValidateTestInput example_lib (example_update (NoArray Undefined) ''A'') Undefined
       (NoArray Undefined) True = Inl no_notations_error"
proof -
  have c: "test_passing_criteria (example_update ns nt) = Some (example_criteria nt)"
    for ns nt by (simp add: example_update_def)
  have u: "upper_mapping example_lib = ascii_upper"
    by (simp add: example_lib_def)
  have n: "notations (example_update ns nt) = ns" for ns nt
    by (simp add: example_update_def)
  note a = C9_notations_source [OF c example_earlier, THEN conjunct1]
  note b = C9_notations_source [OF c example_earlier_new, THEN conjunct1]
  show ?thesis
    by (simp add: a b u n notations_for_criteria_def example_valid)
qed

end
